theory Spec2Isabelle
  imports Main "HOL-Library.List_Lexorder" "HOL-Library.Multiset"
begin

section \<open>Python strings\<close>

text \<open>
  A Python \<open>str\<close> is a sequence of Unicode code points, and \<open>len\<close>, slicing, \<open>in\<close>
  and \<open>startswith\<close> count code points. A string is therefore a list of code points
  (natural numbers); an ASCII literal of the source is written \<open>asc ''...''\<close>, a
  non-ASCII literal as the list of its code points.
\<close>

type_synonym ustr = "nat list"

definition asc :: "string \<Rightarrow> ustr" where
  "asc s = map of_char s"

text \<open>\<open>sub in s\<close> for strings: \<open>sub\<close> occurs as a contiguous slice of \<open>s\<close>.\<close>

primrec contains :: "ustr \<Rightarrow> ustr \<Rightarrow> bool" where
  "contains sub [] = (sub = [])"
| "contains sub (c # cs) = (take (length sub) (c # cs) = sub \<or> contains sub cs)"

definition startswith :: "ustr \<Rightarrow> ustr \<Rightarrow> bool" where
  "startswith s pre = (take (length pre) s = pre)"

text \<open>\<open>str(n)\<close> and \<open>f"{n}"\<close> for a non-negative integer: its decimal digits.\<close>

function show_nat :: "nat \<Rightarrow> ustr" where
  "show_nat n = (if n < 10 then [48 + n] else show_nat (n div 10) @ [48 + n mod 10])"
  by pat_completeness auto
termination
  by (relation "measure id") auto

definition show_int :: "int \<Rightarrow> ustr" where
  "show_int i = (if i < 0 then 45 # show_nat (nat (- i)) else show_nat (nat i))"

text \<open>
  The Unicode character database is part of the Python runtime, not of the repository.
  The ASCII range is written out below; for code points from 128 on, the properties the
  program consults are taken from a parameter of this type.
\<close>

record unicode_db =
  ud_decimal :: "nat \<Rightarrow> nat option"  \<comment> \<open>digit value of a decimal digit (category Nd)\<close>
  ud_alnum :: "nat \<Rightarrow> bool"           \<comment> \<open>\<open>str.isalnum\<close>\<close>
  ud_space :: "nat \<Rightarrow> bool"           \<comment> \<open>\<open>str.isspace\<close>\<close>
  ud_cased :: "nat \<Rightarrow> bool"           \<comment> \<open>the character is cased\<close>
  ud_lower :: "nat \<Rightarrow> ustr"           \<comment> \<open>full lower-case mapping\<close>
  ud_title :: "nat \<Rightarrow> ustr"           \<comment> \<open>full title-case mapping\<close>

definition is_upper_ascii :: "nat \<Rightarrow> bool" where
  "is_upper_ascii c = (65 \<le> c \<and> c \<le> 90)"

definition is_lower_ascii :: "nat \<Rightarrow> bool" where
  "is_lower_ascii c = (97 \<le> c \<and> c \<le> 122)"

definition is_digit_ascii :: "nat \<Rightarrow> bool" where
  "is_digit_ascii c = (48 \<le> c \<and> c \<le> 57)"

definition isspace :: "unicode_db \<Rightarrow> nat \<Rightarrow> bool" where
  "isspace ud c = (if c < 128 then (9 \<le> c \<and> c \<le> 13) \<or> (28 \<le> c \<and> c \<le> 32) else ud_space ud c)"

definition isalnum :: "unicode_db \<Rightarrow> nat \<Rightarrow> bool" where
  "isalnum ud c =
     (if c < 128 then is_upper_ascii c \<or> is_lower_ascii c \<or> is_digit_ascii c
      else ud_alnum ud c)"

definition iscased :: "unicode_db \<Rightarrow> nat \<Rightarrow> bool" where
  "iscased ud c = (if c < 128 then is_upper_ascii c \<or> is_lower_ascii c else ud_cased ud c)"

definition tolower :: "unicode_db \<Rightarrow> nat \<Rightarrow> ustr" where
  "tolower ud c = (if c < 128 then (if is_upper_ascii c then [c + 32] else [c]) else ud_lower ud c)"

definition totitle :: "unicode_db \<Rightarrow> nat \<Rightarrow> ustr" where
  "totitle ud c = (if c < 128 then (if is_lower_ascii c then [c - 32] else [c]) else ud_title ud c)"

text \<open>\<open>s.lower()\<close>\<close>

definition lower :: "unicode_db \<Rightarrow> ustr \<Rightarrow> ustr" where
  "lower ud s = concat (map (tolower ud) s)"

text \<open>
  \<open>s.title()\<close>: a character that follows a cased character is lower-cased, any other
  character is title-cased.
\<close>

fun title_from :: "unicode_db \<Rightarrow> bool \<Rightarrow> ustr \<Rightarrow> ustr" where
  "title_from ud previous_is_cased [] = []"
| "title_from ud previous_is_cased (c # cs) =
     (if previous_is_cased then tolower ud c else totitle ud c) @ title_from ud (iscased ud c) cs"

definition title :: "unicode_db \<Rightarrow> ustr \<Rightarrow> ustr" where
  "title ud s = title_from ud False s"

text \<open>\<open>s.strip()\<close>: leading and trailing whitespace removed.\<close>

definition strip :: "unicode_db \<Rightarrow> ustr \<Rightarrow> ustr" where
  "strip ud s = rev (dropWhile (isspace ud) (rev (dropWhile (isspace ud) s)))"

text \<open>
  \<open>s.replace(old, new)\<close> for a non-empty \<open>old\<close>: the occurrences of \<open>old\<close> are
  replaced from left to right, without overlap.
\<close>

fun replace :: "ustr \<Rightarrow> ustr \<Rightarrow> ustr \<Rightarrow> ustr" where
  "replace old new [] = []"
| "replace old new (c # cs) =
     (if old \<noteq> [] \<and> take (length old) (c # cs) = old
      then new @ replace old new (drop (length old) (c # cs))
      else c # replace old new cs)"

section \<open>The parser of \<open>multiple.py\<close>: columns of the template\<close>

record column =
  code :: ustr
  description :: ustr

text \<open>The dictionaries of \<open>JGBFParser.__init__\<close>, in insertion order.\<close>

definition instrument_mapping :: "(ustr \<times> ustr) list" where
  "instrument_mapping =
     [(asc ''JGB(10-year) Futures'', asc ''JGB10YEARFUTURES''),
      (asc ''mini-10-year JGB Futures'', asc ''MINI10YEARJGBFUTURESCASHSETTLED''),
      (asc ''mini-20-year JGB Futures'', asc ''MINI20YEARJGBFUTURES''),
      (asc ''3-Month TONA Futures'', asc ''3MONTHTONAFUTURES'')]"

definition main_summary_categories :: "(ustr \<times> ustr) list" where
  "main_summary_categories =
     [([0x81EA, 0x5DF1, 0x53D6, 0x5F15, 0x8A08], asc ''PROPRIETARY''),
      ([0x59D4, 0x8A17, 0x53D6, 0x5F15, 0x8A08], asc ''BROKERAGE''),
      ([0x81EA, 0x5DF1, 0x59D4, 0x8A17, 0x5408, 0x8A08], asc ''TOTAL'')]"

definition brokerage_categories :: "(ustr \<times> ustr) list" where
  "brokerage_categories =
     [([0x6CD5, 0x4EBA, 0x8A08], asc ''INSTITUTIONS''),
      ([0x500B, 0x4EBA, 0x8A08], asc ''INDIVIDUALS''),
      ([0x6D77, 0x5916, 0x6295, 0x8CC7, 0x5BB6, 0x8A08], asc ''FOREIGNERS''),
      ([0x8A3C, 0x5238, 0x4F1A, 0x793E], asc ''SECURITIES_COS'')]"

definition subcategories :: "(ustr \<times> ustr) list" where
  "subcategories =
     [([0x58F2, 0x308A], asc ''SALES''),
      ([0x8CB7, 0x3044], asc ''PURCHASES'')]"

definition month_map :: "(ustr \<times> nat) list" where
  "month_map =
     [(asc ''Jan'', 1), (asc ''Feb'', 2), (asc ''Mar'', 3), (asc ''Apr'', 4),
      (asc ''May'', 5), (asc ''Jun'', 6), (asc ''Jul'', 7), (asc ''Aug'', 8),
      (asc ''Sep'', 9), (asc ''Oct'', 10), (asc ''Nov'', 11), (asc ''Dec'', 12)]"

text \<open>The local dictionaries of \<open>get_template_columns\<close>.\<close>

definition instruments :: "(ustr \<times> ustr) list" where
  "instruments =
     [(asc ''JGB10YEARFUTURES'', asc ''JGB(10-year) Futures''),
      (asc ''MINI10YEARJGBFUTURESCASHSETTLED'',
         asc ''mini-10-year JGB Futures'' @ [0xFF08] @ asc ''Cash-Settled)''),
      (asc ''MINI20YEARJGBFUTURES'', asc ''mini-20-year JGB Futures''),
      (asc ''3MONTHTONAFUTURES'', asc ''3-Month TONA Futures'')]"

definition main_cats :: "(ustr \<times> ustr) list" where
  "main_cats =
     [(asc ''PROPRIETARY'', asc ''Proprietary''),
      (asc ''BROKERAGE'', asc ''Brokerage''),
      (asc ''TOTAL'', asc ''Total'')]"

definition breakdown_cats :: "(ustr \<times> ustr) list" where
  "breakdown_cats =
     [(asc ''INSTITUTIONS'', asc ''Institutions''),
      (asc ''INDIVIDUALS'', asc ''Individuals''),
      (asc ''FOREIGNERS'', asc ''Foreigners''),
      (asc ''SECURITIES_COS'', asc ''Securities Cos'')]"

text \<open>
  The body of the first loop nest of \<open>get_template_columns\<close>: the column of one
  instrument, main category, subcategory and metric.
\<close>

definition main_column :: "unicode_db \<Rightarrow> ustr \<times> ustr \<Rightarrow> ustr \<times> ustr \<Rightarrow> ustr \<Rightarrow> ustr \<Rightarrow> column" where
  "main_column ud instr cat subcat metric =
     (case instr of (instr_code, instr_name) \<Rightarrow>
      case cat of (cat_code, cat_name) \<Rightarrow>
        \<lparr>code = asc ''JGBF.TOTAL_PROPRIETARY_BROKERAGE.'' @ instr_code @ asc ''.TRADINGVALUE.''
                  @ cat_code @ asc ''.'' @ subcat @ asc ''.'' @ metric @ asc ''.W'',
         description = asc ''Trading by Type of Investors, '' @ instr_name
                  @ asc '', Total, Proprietary '' @ [0xFF06] @ asc '' Brokerage, Trading Value, ''
                  @ cat_name @ asc '', '' @ title ud subcat @ asc '', '' @ title ud metric\<rparr>)"

text \<open>The body of the second loop nest: the column of a breakdown category.\<close>

definition breakdown_column :: "unicode_db \<Rightarrow> ustr \<times> ustr \<Rightarrow> ustr \<times> ustr \<Rightarrow> ustr \<Rightarrow> ustr \<Rightarrow> column" where
  "breakdown_column ud instr cat subcat metric =
     (case instr of (instr_code, instr_name) \<Rightarrow>
      case cat of (cat_code, cat_name) \<Rightarrow>
        \<lparr>code =
           (if instr_code = asc ''JGB10YEARFUTURES''
            then asc ''JGBF.TRADINGBYTYPEOFINVESTORS.'' @ instr_code
                  @ asc ''.BREAKDOWNOFBROKERAGE.TRADINGVALUE.''
                  @ cat_code @ asc ''.'' @ subcat @ asc ''.'' @ metric @ asc ''.W''
            else asc ''JGBF.TOTAL_PROPRIETARY_BROKERAGE.'' @ instr_code
                  @ asc ''.BREAKDOWNOFBROKERAGE.TRADINGVALUE.''
                  @ cat_code @ asc ''.'' @ subcat @ asc ''.'' @ metric @ asc ''.W''),
         description = asc ''Trading by Type of Investors, '' @ instr_name
                  @ asc '', Breakdown of Brokerage, Trading Value, ''
                  @ cat_name @ asc '', '' @ title ud subcat @ asc '', '' @ title ud metric\<rparr>)"

definition get_template_columns :: "unicode_db \<Rightarrow> column list" where
  "get_template_columns ud =
     [main_column ud instr cat subcat metric.
        instr \<leftarrow> instruments, cat \<leftarrow> main_cats,
        subcat \<leftarrow> [asc ''SALES'', asc ''PURCHASES''], metric \<leftarrow> [asc ''VALUE'', asc ''BALANCE'']]
     @ [breakdown_column ud instr cat subcat metric.
        instr \<leftarrow> instruments, cat \<leftarrow> breakdown_cats,
        subcat \<leftarrow> [asc ''SALES'', asc ''PURCHASES''], metric \<leftarrow> [asc ''VALUE'', asc ''BALANCE'']]"

section \<open>The parser of \<open>multiple.py\<close>: rows of a table\<close>

text \<open>
  The value of a spreadsheet cell as the workbook reader returns it: \<open>None\<close>, a string,
  an integer, or another object (a float, a boolean, a date), which the program only
  tests for truth and converts with \<open>str\<close>; such an object is given by its truth value
  and its \<open>str\<close> rendering. It is never \<open>None\<close> and never equal to a string.
\<close>

datatype cell = CNone | CStr ustr | CInt int | COther bool ustr

fun truthy :: "cell \<Rightarrow> bool" where
  "truthy CNone = False"
| "truthy (CStr s) = (s \<noteq> [])"
| "truthy (CInt i) = (i \<noteq> 0)"
| "truthy (COther t r) = t"

text \<open>\<open>str(v)\<close>\<close>

fun str_of :: "cell \<Rightarrow> ustr" where
  "str_of CNone = asc ''None''"
| "str_of (CStr s) = s"
| "str_of (CInt i) = show_int i"
| "str_of (COther t r) = r"

text \<open>\<open>v or ""\<close>\<close>

definition or_empty :: "cell \<Rightarrow> cell" where
  "or_empty v = (if truthy v then v else CStr [])"

definition handle_negative_values :: "unicode_db \<Rightarrow> cell \<Rightarrow> ustr" where
  "handle_negative_values ud v =
     (if v = CNone \<or> v = CStr (asc ''-'') \<or> v = CStr [] then []
      else let value_str = strip ud (str_of v)
           in if startswith value_str [0x25B2] then asc ''-'' @ drop 1 value_str else value_str)"

record datum =
  item_code :: ustr
  item_date :: ustr
  item_value :: ustr

record sheet_data =
  subtitle :: ustr
  data_rows :: "cell list list"

text \<open>
  \<open>next((en for jp, en in m.items() if jp in text), None)\<close>: the value of the first
  entry of the dictionary whose key occurs in the text.
\<close>

definition first_match :: "(ustr \<times> ustr) list \<Rightarrow> ustr \<Rightarrow> ustr option" where
  "first_match m text =
     (case filter (\<lambda>(jp, en). contains jp text) m of [] \<Rightarrow> None | (jp, en) # _ \<Rightarrow> Some en)"

text \<open>
  The series code that \<open>_parse_table\<close> assigns to \<open>code\<close> for a record, by table type
  and instrument.
\<close>

definition row_code :: "bool \<Rightarrow> ustr \<Rightarrow> ustr \<Rightarrow> ustr \<Rightarrow> ustr \<Rightarrow> ustr" where
  "row_code is_main instrument_code category subcat metric =
     (if is_main
      then asc ''JGBF.TOTAL_PROPRIETARY_BROKERAGE.'' @ instrument_code
           @ asc ''.TRADINGVALUE.'' @ category @ asc ''.'' @ subcat
           @ asc ''.'' @ metric @ asc ''.W''
      else if instrument_code = asc ''JGB10YEARFUTURES''
      then asc ''JGBF.TRADINGBYTYPEOFINVESTORS.'' @ instrument_code
           @ asc ''.BREAKDOWNOFBROKERAGE.TRADINGVALUE.'' @ category
           @ asc ''.'' @ subcat @ asc ''.'' @ metric @ asc ''.W''
      else asc ''JGBF.TOTAL_PROPRIETARY_BROKERAGE.'' @ instrument_code
           @ asc ''.BREAKDOWNOFBROKERAGE.TRADINGVALUE.'' @ category
           @ asc ''.'' @ subcat @ asc ''.'' @ metric @ asc ''.W'')"

text \<open>
  One pass of the loop of \<open>_parse_table\<close> over a row: the records the row appends to
  \<open>results\<close>; the empty list where the source says \<open>continue\<close>.
\<close>

definition parse_row ::
  "unicode_db \<Rightarrow> bool \<Rightarrow> (ustr \<times> ustr) list \<Rightarrow> ustr \<Rightarrow> ustr \<Rightarrow> cell list \<Rightarrow> datum list" where
  "parse_row ud is_main category_map instrument_code date_code row =
     (if length row < 8 then []
      else
        let cat_full = str_of (or_empty (row ! 0));
            subcat_raw = str_of (or_empty (row ! 1));
            val = row ! 5;
            bal = row ! 7
        in if cat_full = [] \<or> subcat_raw = [] \<or> contains [0x5408, 0x8A08] subcat_raw then []
           else
             (case (first_match category_map cat_full, first_match subcategories subcat_raw) of
                (Some category, Some subcat) \<Rightarrow>
                  if category = [] \<or> subcat = [] then []
                  else concat (map (\<lambda>(metric, data_val).
                    let processed_value = handle_negative_values ud data_val
                    in if processed_value \<noteq> [] then
                         let code = row_code is_main instrument_code category subcat metric
                         in if code \<noteq> []
                            then [\<lparr>item_code = code, item_date = date_code,
                                   item_value = processed_value\<rparr>]
                            else []
                       else [])
                    [(asc ''VALUE'', val), (asc ''BALANCE'', bal)])
              | _ \<Rightarrow> []))"

text \<open>
  \<open>_parse_table\<close>: the rows are visited in order and their records appended. Nothing in
  the loop can raise: the length is checked before any index is read, and \<open>str\<close>, \<open>in\<close>,
  \<open>==\<close> and \<open>strip\<close> are defined on every cell value.
\<close>

definition parse_table :: "unicode_db \<Rightarrow> sheet_data \<Rightarrow> ustr \<Rightarrow> ustr \<Rightarrow> ustr \<Rightarrow> datum list" where
  "parse_table ud sheet instrument_code date_code table_type =
     (let is_main = (table_type = asc ''main_summary'');
          category_map = (if is_main then main_summary_categories else brokerage_categories)
      in concat (map (parse_row ud is_main category_map instrument_code date_code)
                     (data_rows sheet)))"

text \<open>
  The series the parser can name: the table type (main summary or breakdown) with an
  instrument code of \<open>instrument_mapping\<close>, a category code of the dictionary of that
  table type, a subcategory code and a metric, in the order of the loops of
  \<open>get_template_columns\<close>.
\<close>

definition series_universe :: "(bool \<times> ustr \<times> ustr \<times> ustr \<times> ustr) list" where
  "series_universe =
     [(is_main, ic, cc, s, m).
        is_main \<leftarrow> [True, False],
        ic \<leftarrow> map snd instrument_mapping,
        cc \<leftarrow> map snd (if is_main then main_summary_categories else brokerage_categories),
        s \<leftarrow> map snd subcategories,
        m \<leftarrow> [asc ''VALUE'', asc ''BALANCE'']]"

section \<open>The parser of \<open>multiple.py\<close>: consolidation\<close>

text \<open>
  The loop that fills \<open>data_pivot\<close>: \<open>data_pivot.setdefault(code, {})[date] = value\<close>
  for every item in order. The dictionary of dictionaries is a map of maps.
\<close>

definition pivot_step :: "datum \<Rightarrow> (ustr \<rightharpoonup> (ustr \<rightharpoonup> ustr)) \<Rightarrow> (ustr \<rightharpoonup> (ustr \<rightharpoonup> ustr))" where
  "pivot_step item m =
     m(item_code item \<mapsto>
         (case m (item_code item) of None \<Rightarrow> Map.empty | Some inner \<Rightarrow> inner)
           (item_date item \<mapsto> item_value item))"

definition data_pivot :: "datum list \<Rightarrow> (ustr \<rightharpoonup> (ustr \<rightharpoonup> ustr))" where
  "data_pivot all_data = fold pivot_step all_data Map.empty"

text \<open>\<open>data_pivot.get(code, {}).get(date, "")\<close>\<close>

definition pivot_get :: "(ustr \<rightharpoonup> (ustr \<rightharpoonup> ustr)) \<Rightarrow> ustr \<Rightarrow> ustr \<Rightarrow> ustr" where
  "pivot_get m c d =
     (case m c of None \<Rightarrow> []
      | Some inner \<Rightarrow> (case inner d of None \<Rightarrow> [] | Some v \<Rightarrow> v))"

text \<open>
  \<open>sorted([d for d in {item['date'] for item in all_data} if d != "UNKNOWN_DATE"])\<close>:
  the distinct dates other than the sentinel, in the order of Python strings, which
  compares code points lexicographically. The set has no order of its own; the sorted
  list does not depend on it.
\<close>

definition all_dates :: "datum list \<Rightarrow> ustr list" where
  "all_dates all_data =
     sort (filter (\<lambda>d. d \<noteq> asc ''UNKNOWN_DATE'') (remdups (map item_date all_data)))"

text \<open>
  \<open>generate_output_file\<close>: the cells written to the sheet, row by row, or \<open>None\<close> where
  the function returns before it writes a file. The first row holds \<open>Date\<close> and the
  codes of the template, the second \<open>Description\<close> and the descriptions, and every
  further row a date and one value for every column of the template. Fonts, the name of
  the file and the saving of the workbook are left out.
\<close>

definition generate_output_file :: "unicode_db \<Rightarrow> datum list \<Rightarrow> ustr list list option" where
  "generate_output_file ud all_data =
     (if all_data = [] then None
      else
        let pivot = data_pivot all_data;
            dates = all_dates all_data
        in if dates = [] then None
           else
             let template_columns = get_template_columns ud
             in Some ((asc ''Date'' # map code template_columns)
                      # (asc ''Description'' # map description template_columns)
                      # map (\<lambda>date. date # map (\<lambda>col_def. pivot_get pivot (code col_def) date)
                                                template_columns)
                            dates))"

text \<open>
  A list of records is consistent when records with the same series code and the same
  date carry the same value.
\<close>

definition consistent :: "datum list \<Rightarrow> bool" where
  "consistent xs = (\<forall>a \<in> set xs. \<forall>b \<in> set xs.
      item_code a = item_code b \<and> item_date a = item_date b \<longrightarrow> item_value a = item_value b)"

section \<open>The converter of \<open>new2.py\<close>: titles of the tables of a page\<close>

definition table_section_titles :: "ustr list" where
  "table_section_titles =
     [[0x7DCF, 0x8A08, 0x30FB, 0x81EA, 0x5DF1, 0x5408, 0x8A08, 0x30FB, 0x59D4, 0x8A17, 0x5408, 0x8A08]
        @ asc '' Total, Proprietary & Brokerage'',
      [0x59D4, 0x8A17, 0x5185, 0x8A33] @ asc '' Breakdown of Brokerage'',
      [0x6CD5, 0x4EBA, 0x5185, 0x8A33] @ asc '' Breakdown of Institutions'',
      [0x91D1, 0x878D, 0x6A5F, 0x95A2, 0x5185, 0x8A33] @ asc '' Breakdown of Financial Institutions'']"

definition table_keywords :: "ustr list" where
  "table_keywords =
     [[0x7DCF, 0x8A08, 0x30FB, 0x81EA, 0x5DF1, 0x5408, 0x8A08, 0x30FB, 0x59D4, 0x8A17, 0x5408, 0x8A08],
      [0x59D4, 0x8A17, 0x5185, 0x8A33],
      [0x6CD5, 0x4EBA, 0x5185, 0x8A33],
      [0x91D1, 0x878D, 0x6A5F, 0x95A2, 0x5185, 0x8A33]]"

text \<open>
  The \<open>while\<close> loop of \<open>extract_table_titles_from_text\<close>: placeholders are appended
  until there are as many titles as keywords.
\<close>

function pad_titles :: "ustr list \<Rightarrow> ustr list" where
  "pad_titles found_titles =
     (if length found_titles < length table_keywords
      then pad_titles (found_titles
             @ [asc ''Table Title '' @ show_nat (length found_titles + 1) @ asc '' (Not Found)''])
      else found_titles)"
  by pat_completeness auto
termination
  by (relation "measure (\<lambda>found_titles. length table_keywords - length found_titles)") auto

definition extract_table_titles_from_text :: "ustr \<Rightarrow> ustr list" where
  "extract_table_titles_from_text text =
     pad_titles (map snd (filter (\<lambda>(keyword, full_title). contains keyword text)
                                 (zip table_keywords table_section_titles)))"

text \<open>
  The record a worker returns for a converted page, as far as
  \<open>convert_docx_to_excel\<close> reads it. The key \<open>table_titles\<close> is always present and
  holds the list that \<open>extract_table_titles_for_page\<close> returned.
\<close>

record page_result =
  page_subtitle :: ustr
  table_count :: nat
  table_titles :: "ustr list"

text \<open>
  The body of the inner loop of \<open>convert_docx_to_excel\<close>: the title of the table at
  index \<open>i\<close> of a page.
\<close>

definition page_table_title :: "ustr list \<Rightarrow> nat \<Rightarrow> ustr" where
  "page_table_title page_table_titles i =
     (let table_pos_on_page = i mod 4
      in if table_pos_on_page < length page_table_titles
         then page_table_titles ! table_pos_on_page
         else asc ''Table Title '' @ show_nat (table_pos_on_page + 1))"

text \<open>
  The two dictionaries that the loops fill, keyed by \<open>current_table_index\<close>, which
  counts up from 0 over the pages in order: lists, read by position.
\<close>

definition table_to_table_title_map :: "page_result list \<Rightarrow> ustr list" where
  "table_to_table_title_map page_results =
     concat (map (\<lambda>result. map (page_table_title (table_titles result))
                                 [0 ..< table_count result])
                 page_results)"

definition table_to_subtitle_map :: "page_result list \<Rightarrow> ustr list" where
  "table_to_subtitle_map page_results =
     concat (map (\<lambda>result. map (\<lambda>i. page_subtitle result) [0 ..< table_count result])
                 page_results)"

text \<open>\<open>table_to_table_title_map.get(i, "Table Title Not Found")\<close>\<close>

definition table_title_of :: "page_result list \<Rightarrow> nat \<Rightarrow> ustr" where
  "table_title_of page_results i =
     (if i < length (table_to_table_title_map page_results)
      then table_to_table_title_map page_results ! i
      else asc ''Table Title Not Found'')"

section \<open>Regular expressions of \<open>extract_date_from_filename\<close>\<close>

text \<open>
  The three patterns are sequences of literal characters, \<open>\d\<close> and \<open>[A-Za-z]\<close>, each
  with a greedy repetition \<open>{m,n}\<close> (\<open>?\<close> is \<open>{0,1}\<close>), and every group encloses one
  repeated item. They are compiled with \<open>re.IGNORECASE\<close> on \<open>str\<close>:
  \<^item> a literal letter matches both its cases, and the letters \<open>k\<close>, \<open>s\<close> and \<open>i\<close> also
    match the Kelvin sign U+212A, the long s U+017F and the dotted and dotless
    U+0130 and U+0131;
  \<^item> \<open>[A-Za-z]\<close> matches the 52 ASCII letters and U+0130, U+0131, U+017F, U+212A;
  \<^item> \<open>\d\<close> matches every Unicode decimal digit.
\<close>

datatype atom = Lit nat | Digit | Letter

datatype piece = Piece atom nat nat bool
  \<comment> \<open>item, least and greatest number of repetitions, whether a group encloses it\<close>

definition lit_matches :: "nat \<Rightarrow> nat \<Rightarrow> bool" where
  "lit_matches l c =
     (c = l
      \<or> (is_upper_ascii l \<and> c = l + 32) \<or> (is_lower_ascii l \<and> c = l - 32)
      \<or> ((l = 75 \<or> l = 107) \<and> c = 0x212A)
      \<or> ((l = 83 \<or> l = 115) \<and> c = 0x17F)
      \<or> ((l = 73 \<or> l = 105) \<and> (c = 0x130 \<or> c = 0x131)))"

text \<open>The digit value of a decimal digit, \<open>None\<close> for any other character.\<close>

definition digit_value :: "unicode_db \<Rightarrow> nat \<Rightarrow> nat option" where
  "digit_value ud c =
     (if c < 128 then (if is_digit_ascii c then Some (c - 48) else None) else ud_decimal ud c)"

fun atom_matches :: "unicode_db \<Rightarrow> atom \<Rightarrow> nat \<Rightarrow> bool" where
  "atom_matches ud (Lit l) c = lit_matches l c"
| "atom_matches ud Digit c = (digit_value ud c \<noteq> None)"
| "atom_matches ud Letter c =
     (is_upper_ascii c \<or> is_lower_ascii c \<or> c = 0x130 \<or> c = 0x131 \<or> c = 0x17F \<or> c = 0x212A)"

text \<open>The first alternative that succeeds, as backtracking finds it.\<close>

primrec try_counts :: "(nat \<Rightarrow> 'a option) \<Rightarrow> nat list \<Rightarrow> 'a option" where
  "try_counts f [] = None"
| "try_counts f (k # ks) = (case f k of Some r \<Rightarrow> Some r | None \<Rightarrow> try_counts f ks)"

text \<open>
  A match of the pieces at the start of the string: the groups in order. A greedy
  repetition takes as many characters as it can and gives them back one by one while
  the rest of the pattern fails.
\<close>

primrec match_pieces :: "unicode_db \<Rightarrow> piece list \<Rightarrow> ustr \<Rightarrow> ustr list option" where
  "match_pieces ud [] = (\<lambda>s. Some [])"
| "match_pieces ud (p # ps) = (\<lambda>s.
     case p of Piece a lo hi captured \<Rightarrow>
       try_counts
         (\<lambda>k. if k \<le> length s \<and> list_all (atom_matches ud a) (take k s)
              then (case match_pieces ud ps (drop k s) of
                      None \<Rightarrow> None
                    | Some groups \<Rightarrow> Some (if captured then take k s # groups else groups))
              else None)
         (rev [lo ..< Suc hi]))"

text \<open>\<open>re.search\<close>: the match at the leftmost position that has one.\<close>

fun re_search :: "unicode_db \<Rightarrow> piece list \<Rightarrow> ustr \<Rightarrow> ustr list option" where
  "re_search ud ps s =
     (case match_pieces ud ps s of
        Some groups \<Rightarrow> Some groups
      | None \<Rightarrow> (case s of [] \<Rightarrow> None | c # cs \<Rightarrow> re_search ud ps cs))"

declare re_search.simps [simp del]

definition lits :: "string \<Rightarrow> piece list" where
  "lits s = map (\<lambda>c. Piece (Lit (of_char c)) 1 1 False) s"

text \<open>\<open>_(\d{4})_Week\d_(\d{1,2})-(\d{1,2})\<close>\<close>

definition pattern1 :: "piece list" where
  "pattern1 = lits ''_'' @ [Piece Digit 4 4 True] @ lits ''_Week'' @ [Piece Digit 1 1 False]
              @ lits ''_'' @ [Piece Digit 1 2 True] @ lits ''-'' @ [Piece Digit 1 2 True]"

text \<open>\<open>([A-Za-z]{3})_(\d{4})_Week\d_(\d{1,2})-\d{1,2}\<close>\<close>

definition pattern2 :: "piece list" where
  "pattern2 = [Piece Letter 3 3 True] @ lits ''_'' @ [Piece Digit 4 4 True] @ lits ''_Week''
              @ [Piece Digit 1 1 False] @ lits ''_'' @ [Piece Digit 1 2 True] @ lits ''-''
              @ [Piece Digit 1 2 False]"

text \<open>\<open>_([A-Za-z]{3})\.?_(\d{1,2})_(\d{4})_-_\<close>\<close>

definition pattern3 :: "piece list" where
  "pattern3 = lits ''_'' @ [Piece Letter 3 3 True, Piece (Lit 46) 0 1 False] @ lits ''_''
              @ [Piece Digit 1 2 True] @ lits ''_'' @ [Piece Digit 4 4 True] @ lits ''_-_''"

section \<open>Dates\<close>

text \<open>
  \<open>int(s)\<close> for a string of decimal digits, as the groups of the patterns are; for any
  other string \<open>None\<close>, where Python raises \<open>ValueError\<close>.
\<close>

definition int_of_str :: "unicode_db \<Rightarrow> ustr \<Rightarrow> int option" where
  "int_of_str ud s =
     (if s \<noteq> [] \<and> list_all (\<lambda>c. digit_value ud c \<noteq> None) s
      then Some (int (foldl (\<lambda>n c. 10 * n + the (digit_value ud c)) 0 s))
      else None)"

text \<open>The proleptic Gregorian calendar of \<open>datetime\<close>.\<close>

definition is_leap :: "int \<Rightarrow> bool" where
  "is_leap y = (y mod 4 = 0 \<and> (y mod 100 \<noteq> 0 \<or> y mod 400 = 0))"

definition days_in_month :: "int \<Rightarrow> int \<Rightarrow> int" where
  "days_in_month y m =
     (if m = 2 \<and> is_leap y then 29
      else [31, 28, 31, 30, 31, 30, 31, 31, 30, 31, 30, 31] ! nat (m - 1))"

definition days_before_year :: "int \<Rightarrow> int" where
  "days_before_year y = (y - 1) * 365 + (y - 1) div 4 - (y - 1) div 100 + (y - 1) div 400"

definition days_before_month :: "int \<Rightarrow> int \<Rightarrow> int" where
  "days_before_month y m =
     [0, 31, 59, 90, 120, 151, 181, 212, 243, 273, 304, 334] ! nat (m - 1)
     + (if m > 2 \<and> is_leap y then 1 else 0)"

definition ymd2ord :: "int \<Rightarrow> int \<Rightarrow> int \<Rightarrow> int" where
  "ymd2ord y m d = days_before_year y + days_before_month y m + d"

text \<open>
  \<open>datetime(year, month, day)\<close>: the date, or \<open>None\<close> where the constructor raises
  \<open>ValueError\<close>.
\<close>

definition datetime :: "int \<Rightarrow> int \<Rightarrow> int \<Rightarrow> (int \<times> int \<times> int) option" where
  "datetime y m d =
     (if 1 \<le> y \<and> y \<le> 9999 \<and> 1 \<le> m \<and> m \<le> 12 \<and> 1 \<le> d \<and> d \<le> days_in_month y m
      then Some (y, m, d) else None)"

definition isoweek1monday :: "int \<Rightarrow> int" where
  "isoweek1monday y =
     (let firstday = ymd2ord y 1 1;
          firstweekday = (firstday + 6) mod 7;
          week1monday = firstday - firstweekday
      in if firstweekday > 3 then week1monday + 7 else week1monday)"

text \<open>\<open>date_obj.isocalendar()\<close>: ISO year, ISO week and weekday.\<close>

definition isocalendar :: "int \<times> int \<times> int \<Rightarrow> int \<times> int \<times> int" where
  "isocalendar date =
     (case date of (y, m, d) \<Rightarrow>
        let week1monday = isoweek1monday y;
            today = ymd2ord y m d;
            week = (today - week1monday) div 7;
            day = (today - week1monday) mod 7
        in if week < 0 then
             (let week1monday' = isoweek1monday (y - 1)
              in (y - 1, (today - week1monday') div 7 + 1, (today - week1monday') mod 7 + 1))
           else if week \<ge> 52 \<and> today \<ge> isoweek1monday (y + 1) then (y + 1, 1, day + 1)
           else (y, week + 1, day + 1))"

text \<open>\<open>f"{iso_year}-{iso_week:02d}"\<close> of the ISO calendar of a date.\<close>

definition week_key :: "int \<times> int \<times> int \<Rightarrow> ustr" where
  "week_key date =
     (case isocalendar date of (iso_year, iso_week, weekday) \<Rightarrow>
        show_int iso_year @ asc ''-''
        @ (if 0 \<le> iso_week \<and> iso_week < 10 then asc ''0'' else []) @ show_int iso_week)"

section \<open>The parser of \<open>multiple.py\<close>: dates of file names\<close>

text \<open>
  The three \<open>try\<close> blocks of \<open>extract_date_from_filename\<close>: \<open>Some\<close> of the returned
  string, or \<open>None\<close> where the block raises, which \<open>except Exception: pass\<close> absorbs, or
  ends without \<open>return\<close>.
\<close>

definition try_numeric :: "unicode_db \<Rightarrow> ustr list \<Rightarrow> ustr option" where
  "try_numeric ud groups =
     (case groups of
        [year_str, month_str, day_str] \<Rightarrow>
          (case (int_of_str ud year_str, int_of_str ud month_str, int_of_str ud day_str) of
             (Some y, Some m, Some d) \<Rightarrow> map_option week_key (datetime y m d)
           | _ \<Rightarrow> None)
      | _ \<Rightarrow> None)"

definition try_named :: "unicode_db \<Rightarrow> ustr \<Rightarrow> ustr \<Rightarrow> ustr \<Rightarrow> ustr option" where
  "try_named ud month_name year_str day_str =
     (case map_of month_map (title ud month_name) of
        None \<Rightarrow> None
      | Some month \<Rightarrow>
          if month = 0 then None
          else (case (int_of_str ud year_str, int_of_str ud day_str) of
                  (Some y, Some d) \<Rightarrow> map_option week_key (datetime y (int month) d)
                | _ \<Rightarrow> None))"

definition extract_date_from_filename :: "unicode_db \<Rightarrow> ustr \<Rightarrow> ustr" where
  "extract_date_from_filename ud filename =
     (case (case re_search ud pattern1 filename of
              None \<Rightarrow> None | Some groups \<Rightarrow> try_numeric ud groups) of
        Some r \<Rightarrow> r
      | None \<Rightarrow>
     (case (case re_search ud pattern2 filename of
              Some [month_name, year_str, day_str] \<Rightarrow> try_named ud month_name year_str day_str
            | _ \<Rightarrow> None) of
        Some r \<Rightarrow> r
      | None \<Rightarrow>
     (case (case re_search ud pattern3 filename of
              Some [month_name, day_str, year_str] \<Rightarrow> try_named ud month_name year_str day_str
            | _ \<Rightarrow> None) of
        Some r \<Rightarrow> r
      | None \<Rightarrow> asc ''UNKNOWN_DATE'')))"

section \<open>The parser of \<open>multiple.py\<close>: files\<close>

definition extract_instrument_from_subtitle :: "unicode_db \<Rightarrow> ustr \<Rightarrow> ustr option" where
  "extract_instrument_from_subtitle ud subtitle_text =
     (let subtitle_clean =
            replace [0x3001] (asc '','')
              (replace [0xFF09] (asc '')'') (replace [0xFF08] (asc ''('') subtitle_text))
      in if contains (asc ''mini-20-year'') (lower ud subtitle_clean)
            \<or> contains [0x8D85, 0x9577, 0x671F, 0x56FD, 0x50B5, 0x5148, 0x7269] subtitle_clean
         then Some (asc ''MINI20YEARJGBFUTURES'')
         else if contains (asc ''3-Month TONA'') subtitle_clean
                 \<or> contains (asc ''TONA'') subtitle_clean
         then Some (asc ''3MONTHTONAFUTURES'')
         else if contains (asc ''JGB(10-year)'') subtitle_clean
                 \<or> contains [0x9577, 0x671F, 0x56FD, 0x50B5, 0x5148, 0x7269] subtitle_clean
         then Some (if contains (asc ''mini'') (lower ud subtitle_clean)
                       \<or> contains [0x30DF, 0x30CB] subtitle_clean
                    then asc ''MINI10YEARJGBFUTURESCASHSETTLED''
                    else asc ''JGB10YEARFUTURES'')
         else None)"

text \<open>
  A sheet of a workbook as the parser reads it: its name, the value of cell \<open>A2\<close> and
  the rows from row 6 on. A workbook is the list of its sheets; \<open>None\<close> stands for a
  file that \<open>load_workbook\<close> cannot open. The file is the same whenever it is opened.
\<close>

record worksheet =
  sheet_name :: ustr
  cell_a2 :: cell
  rows_from_6 :: "cell list list"

text \<open>
  \<open>read_excel_sheet\<close>: \<open>None\<close> where the sheet is missing or an exception is caught; a
  cell \<open>A2\<close> that is true and not a string has no string \<open>replace\<close> and raises.
\<close>

definition read_excel_sheet :: "worksheet list option \<Rightarrow> ustr \<Rightarrow> sheet_data option" where
  "read_excel_sheet wb name =
     (case wb of
        None \<Rightarrow> None
      | Some sheets \<Rightarrow>
          (case find (\<lambda>ws. sheet_name ws = name) sheets of
             None \<Rightarrow> None
           | Some ws \<Rightarrow>
               (case or_empty (cell_a2 ws) of
                  CStr a2 \<Rightarrow>
                    Some \<lparr>subtitle = replace (asc ''Subtitle: '') [] a2,
                          data_rows = filter (\<lambda>row. row \<noteq> [] \<and> truthy (row ! 0))
                                             (rows_from_6 ws)\<rparr>
                | _ \<Rightarrow> None)))"

text \<open>
  One pass of the loop of \<open>process_single_file\<close> over a sheet name: the records the
  sheet adds to \<open>file_results\<close>.
\<close>

definition process_sheet :: "unicode_db \<Rightarrow> worksheet list option \<Rightarrow> ustr \<Rightarrow> ustr \<Rightarrow> datum list" where
  "process_sheet ud wb date_code name =
     (let table_type =
            (if contains (asc ''Table1_Main_Summary'') name then Some (asc ''main_summary'')
             else if contains (asc ''Table2_Brokerage_Bre'') name
             then Some (asc ''brokerage_breakdown'')
             else None)
      in case table_type of
           None \<Rightarrow> []
         | Some tt \<Rightarrow>
             (case read_excel_sheet wb name of
                None \<Rightarrow> []
              | Some sheet \<Rightarrow>
                  (case extract_instrument_from_subtitle ud (subtitle sheet) of
                     None \<Rightarrow> []
                   | Some instrument_code \<Rightarrow>
                       if instrument_code = [] then []
                       else parse_table ud sheet instrument_code date_code tt)))"

text \<open>
  \<open>process_single_file\<close>, from the stem of the file name and the workbook of the file.
  A workbook that cannot be opened raises inside the \<open>try\<close> and leaves \<open>file_results\<close>
  empty; nothing else in the loop raises.
\<close>

definition process_single_file :: "unicode_db \<Rightarrow> ustr \<Rightarrow> worksheet list option \<Rightarrow> datum list" where
  "process_single_file ud stem wb =
     (let date_code = extract_date_from_filename ud stem
      in if date_code = asc ''UNKNOWN_DATE'' then []
         else (case wb of
                 None \<Rightarrow> []
               | Some sheets \<Rightarrow>
                   concat (map (process_sheet ud wb date_code) (map sheet_name sheets))))"

section \<open>File names of \<open>Scrape.py\<close>\<close>

text \<open>\<open>generate_filename\<close>\<close>

definition generate_filename :: "unicode_db \<Rightarrow> ustr \<Rightarrow> ustr \<Rightarrow> ustr" where
  "generate_filename ud date_text file_type =
     (let clean_date =
            replace (asc '','') []
              (replace (asc '' '') (asc ''_'')
                (replace (asc ''/'') (asc ''-'')
                  (replace [0xFF09] []
                    (replace [0xFF08] (asc ''_'') date_text))))
      in filter (\<lambda>c. isalnum ud c \<or> c \<in> set (asc ''._-'')) clean_date
         @ asc ''.'' @ file_type)"

text \<open>
  \<open>Path(name).stem\<close> for a file name without directories: the name up to its last dot,
  where that dot is neither the first nor the last character.
\<close>

definition rfind :: "nat \<Rightarrow> ustr \<Rightarrow> nat option" where
  "rfind c s = (case filter (\<lambda>i. s ! i = c) (rev [0 ..< length s]) of
                  [] \<Rightarrow> None | i # _ \<Rightarrow> Some i)"

definition path_stem :: "ustr \<Rightarrow> ustr" where
  "path_stem name =
     (case rfind 46 name of
        None \<Rightarrow> name
      | Some i \<Rightarrow> if 0 < i \<and> i < length name - 1 then take i name else name)"

section \<open>A character database for concrete runs\<close>

text \<open>
  The database that knows no character beyond ASCII. The concrete inputs evaluated below
  are ASCII or use non-ASCII characters only where the program compares them literally,
  so any database gives the same results on them.
\<close>

definition ascii_db :: unicode_db where
  "ascii_db = \<lparr>ud_decimal = (\<lambda>c. None), ud_alnum = (\<lambda>c. False), ud_space = (\<lambda>c. False),
                ud_cased = (\<lambda>c. False), ud_lower = (\<lambda>c. [c]), ud_title = (\<lambda>c. [c])\<rparr>"

text \<open>
  A row of a main-summary table: category \<open>PROPRIETARY\<close>, subcategory \<open>SALES\<close>, the
  value 100 in the sixth field and the balance with the negative glyph in the eighth.
\<close>

definition example_row :: "cell list" where
  "example_row =
     [CStr [0x81EA, 0x5DF1, 0x53D6, 0x5F15, 0x8A08], CStr [0x58F2, 0x308A],
      CNone, CNone, CNone, CInt 100, CNone, CStr (0x25B2 # asc ''50'')]"

definition example_sheet :: sheet_data where
  "example_sheet = \<lparr>subtitle = asc ''JGB(10-year) Futures'', data_rows = [example_row]\<rparr>"

text \<open>
  A row of the same table with no figure in the sixth field: subcategory \<open>PURCHASES\<close>,
  \<open>None\<close> for the value and a balance with the negative glyph.
\<close>

definition example_row_no_value :: "cell list" where
  "example_row_no_value =
     [CStr [0x81EA, 0x5DF1, 0x53D6, 0x5F15, 0x8A08], CStr [0x8CB7, 0x3044],
      CNone, CNone, CNone, CNone, CNone, CStr (0x25B2 # asc ''7'')]"

text \<open>Two records of the same series and week with different values.\<close>

definition example_earlier :: datum where
  "example_earlier =
     \<lparr>item_code = asc ''JGBF.TOTAL_PROPRIETARY_BROKERAGE.JGB10YEARFUTURES.TRADINGVALUE.PROPRIETARY.SALES.VALUE.W'',
      item_date = asc ''2023-49'', item_value = asc ''100''\<rparr>"

definition example_later :: datum where
  "example_later =
     \<lparr>item_code = asc ''JGBF.TOTAL_PROPRIETARY_BROKERAGE.JGB10YEARFUTURES.TRADINGVALUE.PROPRIETARY.SALES.VALUE.W'',
      item_date = asc ''2023-49'', item_value = asc ''200''\<rparr>"

text \<open>A page with five tables whose text holds the four keywords.\<close>

definition example_page :: page_result where
  "example_page =
     \<lparr>page_subtitle = asc ''JGB(10-year) Futures'', table_count = 5,
      table_titles = extract_table_titles_from_text (concat table_keywords)\<rparr>"

text \<open>The label of a report: \<open>Jul 2025, Week2\<close> with \<open>7/7 - 7/11\<close> in full-width brackets.\<close>

definition example_label :: ustr where
  "example_label = asc ''Jul 2025, Week2'' @ [0xFF08] @ asc ''7/7 - 7/11'' @ [0xFF09]"

text \<open>A workbook with one main-summary sheet of the 10-year future.\<close>

definition example_workbook :: "worksheet list option" where
  "example_workbook =
     Some [\<lparr>sheet_name = asc ''P1_Table1_Main_Summary'',
            cell_a2 = CStr (asc ''Subtitle: JGB(10-year) Futures''),
            rows_from_6 = [example_row]\<rparr>]"

section \<open>Size of the template\<close>

lemma length_get_template_columns: "length (get_template_columns ud) = 112"
  by (simp add: get_template_columns_def instruments_def main_cats_def breakdown_cats_def)

text \<open>
  C2 as stated (176 columns, 48 of the main summary plus 128 of the breakdown) fails:
  the second loop nest runs over 4 instruments, 4 categories, 2 subcategories and
  2 metrics, which is 64 columns and not 128.
\<close>

theorem get_template_columns_176_counterexample:
  "length (get_template_columns ascii_db) \<noteq> 176"
  by (simp add: length_get_template_columns)

lemmas ascii_case_defs =
  title_def asc_def totitle_def tolower_def iscased_def is_upper_ascii_def is_lower_ascii_def

lemma title_metric_subcat:
  "title ud (asc ''SALES'') = asc ''Sales''"
  "title ud (asc ''PURCHASES'') = asc ''Purchases''"
  "title ud (asc ''VALUE'') = asc ''Value''"
  "title ud (asc ''BALANCE'') = asc ''Balance''"
  by (simp_all add: ascii_case_defs)

lemma get_template_columns_any_db: "get_template_columns ud = get_template_columns ud'"
  by (simp add: get_template_columns_def main_column_def breakdown_column_def title_metric_subcat)

text \<open>
  C2, amended: the template has exactly 112 columns, the 48 columns of the main summary
  followed by the 64 columns of the breakdown, and it is the same list whatever the
  character database; \<open>get_template_columns\<close> takes no document, row or datum.
\<close>

theorem get_template_columns_size:
  "length (get_template_columns ud) = 112
   \<and> take 48 (get_template_columns ud) =
       [main_column ud instr cat subcat metric.
          instr \<leftarrow> instruments, cat \<leftarrow> main_cats,
          subcat \<leftarrow> [asc ''SALES'', asc ''PURCHASES''], metric \<leftarrow> [asc ''VALUE'', asc ''BALANCE'']]
   \<and> length (drop 48 (get_template_columns ud)) = 64
   \<and> get_template_columns ud = get_template_columns ascii_db"
proof -
  have "length [main_column ud instr cat subcat metric.
          instr \<leftarrow> instruments, cat \<leftarrow> main_cats,
          subcat \<leftarrow> [asc ''SALES'', asc ''PURCHASES''], metric \<leftarrow> [asc ''VALUE'', asc ''BALANCE'']] = 48"
    by (simp add: instruments_def main_cats_def)
  then have "take 48 (get_template_columns ud) =
       [main_column ud instr cat subcat metric.
          instr \<leftarrow> instruments, cat \<leftarrow> main_cats,
          subcat \<leftarrow> [asc ''SALES'', asc ''PURCHASES''], metric \<leftarrow> [asc ''VALUE'', asc ''BALANCE'']]"
    unfolding get_template_columns_def by simp
  then show ?thesis
    using get_template_columns_any_db [of ud ascii_db]
    by (simp add: length_get_template_columns)
qed

section \<open>Sign normalisation\<close>

lemmas eval_defs =
  parse_table_def parse_row_def row_code_def Let_def first_match_def handle_negative_values_def
  or_empty_def main_summary_categories_def brokerage_categories_def subcategories_def
  asc_def strip_def isspace_def ascii_db_def startswith_def show_int_def show_nat.simps
  example_row_def example_sheet_def

lemma example_sheet_parsed:
  "parse_table ascii_db example_sheet (asc ''JGB10YEARFUTURES'') (asc ''2023-49'')
     (asc ''main_summary'')
   = [\<lparr>item_code = asc ''JGBF.TOTAL_PROPRIETARY_BROKERAGE.JGB10YEARFUTURES.TRADINGVALUE.PROPRIETARY.SALES.VALUE.W'',
        item_date = asc ''2023-49'', item_value = asc ''100''\<rparr>,
      \<lparr>item_code = asc ''JGBF.TOTAL_PROPRIETARY_BROKERAGE.JGB10YEARFUTURES.TRADINGVALUE.PROPRIETARY.SALES.BALANCE.W'',
        item_date = asc ''2023-49'', item_value = asc ''-50''\<rparr>]"
  by (simp add: eval_defs)

lemma strip_glyph:
  assumes "\<not> isspace ud g"
  shows "strip ud (g # rest) = g # rev (dropWhile (isspace ud) (rev rest))"
  using assms by (simp add: strip_def dropWhile_append)

lemma handle_negative_values_glyph:
  assumes "\<not> isspace ud 0x25B2"
  shows "handle_negative_values ud (CStr (0x25B2 # rest))
         = asc ''-'' @ rev (dropWhile (isspace ud) (rev rest))"
  using assms by (simp add: handle_negative_values_def strip_glyph startswith_def asc_def)

lemma parse_row_values:
  assumes "d \<in> set (parse_row ud is_main cm ic dc row)"
  shows "item_value d \<noteq> [] \<and> 8 \<le> length row
         \<and> (item_value d = handle_negative_values ud (row ! 5)
            \<or> item_value d = handle_negative_values ud (row ! 7))"
  using assms
  by (auto simp: parse_row_def Let_def split: if_splits option.splits)

lemma parse_table_values:
  assumes "d \<in> set (parse_table ud sheet ic dc tt)"
  shows "item_value d \<noteq> []
         \<and> (\<exists>row \<in> set (data_rows sheet). 8 \<le> length row
             \<and> (item_value d = handle_negative_values ud (row ! 5)
                \<or> item_value d = handle_negative_values ud (row ! 7)))"
  using assms parse_row_values
  by (fastforce simp: parse_table_def Let_def)

lemma first_match_in:
  assumes "first_match m t = Some en"
  shows "en \<in> snd ` set m"
proof -
  from assms obtain jp rest where "filter (\<lambda>(jp, en). contains jp t) m = (jp, en) # rest"
    by (auto simp: first_match_def split: list.splits)
  then have "(jp, en) \<in> set (filter (\<lambda>(jp, en). contains jp t) m)"
    by simp
  then have "(jp, en) \<in> set m"
    by simp
  then show ?thesis
    by force
qed

lemma first_match_empty:
  "first_match main_summary_categories [] = None"
  "first_match brokerage_categories [] = None"
  "first_match subcategories [] = None"
  by (simp_all add: first_match_def main_summary_categories_def brokerage_categories_def
      subcategories_def)

lemma dict_values_nonempty:
  "[] \<notin> snd ` set main_summary_categories"
  "[] \<notin> snd ` set brokerage_categories"
  "[] \<notin> snd ` set subcategories"
  by (simp_all add: main_summary_categories_def brokerage_categories_def subcategories_def
      asc_def)

lemma row_code_nonempty: "row_code is_main ic category subcat metric \<noteq> []"
  by (simp add: row_code_def asc_def)

lemma parse_row_matched:
  assumes "8 \<le> length row"
    and "\<not> contains [0x5408, 0x8A08] (str_of (or_empty (row ! 1)))"
    and "first_match cm (str_of (or_empty (row ! 0))) = Some category"
    and "first_match subcategories (str_of (or_empty (row ! 1))) = Some subcat"
    and "cm = main_summary_categories \<or> cm = brokerage_categories"
  shows "parse_row ud is_main cm ic dc row
         = (if handle_negative_values ud (row ! 5) = [] then []
            else [\<lparr>item_code = row_code is_main ic category subcat (asc ''VALUE''),
                   item_date = dc, item_value = handle_negative_values ud (row ! 5)\<rparr>])
           @ (if handle_negative_values ud (row ! 7) = [] then []
              else [\<lparr>item_code = row_code is_main ic category subcat (asc ''BALANCE''),
                     item_date = dc, item_value = handle_negative_values ud (row ! 7)\<rparr>])"
proof -
  have c0: "str_of (or_empty (row ! 0)) \<noteq> []"
    using assms(3,5) first_match_empty by auto
  have s0: "str_of (or_empty (row ! Suc 0)) \<noteq> []"
    using assms(4) first_match_empty by auto
  have "category \<in> snd ` set cm"
    using assms(3) by (rule first_match_in)
  then have cn: "category \<noteq> []"
    using assms(5) dict_values_nonempty(1,2) by metis
  have "subcat \<in> snd ` set subcategories"
    using assms(4) by (rule first_match_in)
  then have sn: "subcat \<noteq> []"
    using dict_values_nonempty(3) by metis
  show ?thesis
    using assms(1,2,3,4) c0 s0 cn sn
    by (simp add: parse_row_def Let_def row_code_nonempty)
qed

lemma parse_row_origin:
  assumes "d \<in> set (parse_row ud is_main cm ic dc row)"
  shows "\<exists>category subcat. 8 \<le> length row
     \<and> first_match cm (str_of (or_empty (row ! 0))) = Some category
     \<and> first_match subcategories (str_of (or_empty (row ! 1))) = Some subcat
     \<and> item_date d = dc
     \<and> (item_code d = row_code is_main ic category subcat (asc ''VALUE'')
          \<and> item_value d = handle_negative_values ud (row ! 5)
        \<or> item_code d = row_code is_main ic category subcat (asc ''BALANCE'')
          \<and> item_value d = handle_negative_values ud (row ! 7))"
proof -
  let ?c = "first_match cm (str_of (or_empty (row ! 0)))"
  let ?s = "first_match subcategories (str_of (or_empty (row ! Suc 0)))"
  from assms obtain category where c: "?c = Some category"
    by (cases ?c) (auto simp: parse_row_def Let_def split: if_splits)
  from assms obtain subcat where s: "?s = Some subcat"
    by (cases ?s) (auto simp: parse_row_def Let_def c split: if_splits)
  from assms have "8 \<le> length row \<and> item_date d = dc
     \<and> (item_code d = row_code is_main ic category subcat (asc ''VALUE'')
          \<and> item_value d = handle_negative_values ud (row ! 5)
        \<or> item_code d = row_code is_main ic category subcat (asc ''BALANCE'')
          \<and> item_value d = handle_negative_values ud (row ! 7))"
    by (auto simp: parse_row_def Let_def c s split: if_splits)
  with c s show ?thesis
    by simp
qed


lemma parse_table_origin:
  assumes "d \<in> set (parse_table ud sheet ic dc tt)"
  shows "\<exists>r \<in> set (data_rows sheet). \<exists>c s. 8 \<le> length r
     \<and> first_match (if tt = asc ''main_summary'' then main_summary_categories
                     else brokerage_categories) (str_of (or_empty (r ! 0))) = Some c
     \<and> first_match subcategories (str_of (or_empty (r ! 1))) = Some s
     \<and> item_date d = dc
     \<and> (item_code d = row_code (tt = asc ''main_summary'') ic c s (asc ''VALUE'')
          \<and> item_value d = handle_negative_values ud (r ! 5)
        \<or> item_code d = row_code (tt = asc ''main_summary'') ic c s (asc ''BALANCE'')
          \<and> item_value d = handle_negative_values ud (r ! 7))"
proof -
  from assms obtain r where r: "r \<in> set (data_rows sheet)"
    and d: "d \<in> set (parse_row ud (tt = asc ''main_summary'')
                (if tt = asc ''main_summary'' then main_summary_categories
                 else brokerage_categories) ic dc r)"
    by (auto simp: parse_table_def Let_def)
  from parse_row_origin [OF d] r show ?thesis
    by blast
qed

lemma parse_table_append:
  "parse_table ud (sheet\<lparr>data_rows := xs @ ys\<rparr>) ic dc tt
   = parse_table ud (sheet\<lparr>data_rows := xs\<rparr>) ic dc tt
     @ parse_table ud (sheet\<lparr>data_rows := ys\<rparr>) ic dc tt"
  by (simp add: parse_table_def Let_def)

lemma parse_table_single:
  "parse_table ud (sheet\<lparr>data_rows := [row]\<rparr>) ic dc tt
   = parse_row ud (tt = asc ''main_summary'')
       (if tt = asc ''main_summary'' then main_summary_categories else brokerage_categories)
       ic dc row"
  by (simp add: parse_table_def Let_def)

text \<open>
  C5 as stated fails in its second part: \<open>handle_negative_values\<close> strips the string
  before it looks for the glyph, so a string that starts with the glyph and ends in
  whitespace is not mapped to a minus sign followed by the rest of the string; the
  trailing space of the input below is lost.
\<close>

theorem handle_negative_values_rest_counterexample:
  "handle_negative_values ascii_db (CStr (0x25B2 # asc ''1,234 '')) \<noteq> asc ''-'' @ asc ''1,234 ''"
  by (simp add: eval_defs)

text \<open>
  C5, amended: \<open>handle_negative_values\<close> maps \<open>None\<close>, the string \<open>-\<close> and the empty
  string to the empty string; it maps a string that starts with the glyph U+25B2 to a
  minus sign followed by the rest of the string without its trailing whitespace (so
  the glyph followed by \<open>1,234\<close> to \<open>-1,234\<close>). Every record that \<open>_parse_table\<close> emits
  carries a non-empty value, the date code of the call, and comes from a row of at
  least 8 fields whose category and subcategory are recognised: a record whose code
  ends in the metric \<open>VALUE\<close> carries the normalised sixth field of that row, a record
  whose code ends in \<open>BALANCE\<close> the normalised eighth field of that row. A row of at
  least 8 fields with a recognised category and subcategory, and no label of a total,
  contributes exactly: one \<open>VALUE\<close> record if its sixth field does not normalise to the
  empty string, then one \<open>BALANCE\<close> record if its eighth field does not; so a field
  that is \<open>None\<close>, \<open>-\<close> or empty gives no record. (The glyph is not a whitespace
  character.)
\<close>

theorem handle_negative_values_normalises:
  assumes "\<not> isspace ud 0x25B2"
    and "d \<in> set (parse_table ud sheet instrument_code date_code table_type)"
    and "8 \<le> length row"
    and "\<not> contains [0x5408, 0x8A08] (str_of (or_empty (row ! 1)))"
    and "first_match (if table_type = asc ''main_summary'' then main_summary_categories
                      else brokerage_categories) (str_of (or_empty (row ! 0))) = Some category"
    and "first_match subcategories (str_of (or_empty (row ! 1))) = Some subcat"
  shows "handle_negative_values ud CNone = []
         \<and> handle_negative_values ud (CStr (asc ''-'')) = []
         \<and> handle_negative_values ud (CStr []) = []
         \<and> handle_negative_values ud (CStr (0x25B2 # rest))
             = asc ''-'' @ rev (dropWhile (isspace ud) (rev rest))
         \<and> handle_negative_values ud (CStr (0x25B2 # asc ''1,234'')) = asc ''-1,234''
         \<and> item_value d \<noteq> []
         \<and> (\<exists>r \<in> set (data_rows sheet). \<exists>c s. 8 \<le> length r
             \<and> first_match (if table_type = asc ''main_summary'' then main_summary_categories
                             else brokerage_categories) (str_of (or_empty (r ! 0))) = Some c
             \<and> first_match subcategories (str_of (or_empty (r ! 1))) = Some s
             \<and> item_date d = date_code
             \<and> (item_code d = row_code (table_type = asc ''main_summary'') instrument_code
                                c s (asc ''VALUE'')
                  \<and> item_value d = handle_negative_values ud (r ! 5)
                \<or> item_code d = row_code (table_type = asc ''main_summary'') instrument_code
                                  c s (asc ''BALANCE'')
                  \<and> item_value d = handle_negative_values ud (r ! 7)))
         \<and> parse_table ud (sheet\<lparr>data_rows := before @ [row] @ after\<rparr>)
               instrument_code date_code table_type
             = parse_table ud (sheet\<lparr>data_rows := before\<rparr>)
                   instrument_code date_code table_type
               @ (if handle_negative_values ud (row ! 5) = [] then []
                  else [\<lparr>item_code = row_code (table_type = asc ''main_summary'')
                                         instrument_code category subcat (asc ''VALUE''),
                         item_date = date_code,
                         item_value = handle_negative_values ud (row ! 5)\<rparr>])
               @ (if handle_negative_values ud (row ! 7) = [] then []
                  else [\<lparr>item_code = row_code (table_type = asc ''main_summary'')
                                         instrument_code category subcat (asc ''BALANCE''),
                         item_date = date_code,
                         item_value = handle_negative_values ud (row ! 7)\<rparr>])
               @ parse_table ud (sheet\<lparr>data_rows := after\<rparr>)
                   instrument_code date_code table_type"
proof -
  have ex: "handle_negative_values ud (CStr (0x25B2 # asc ''1,234'')) = asc ''-1,234''"
    using assms(1) by (simp add: handle_negative_values_glyph) (simp add: asc_def isspace_def)
  have empty: "handle_negative_values ud CNone = []"
    "handle_negative_values ud (CStr (asc ''-'')) = []"
    "handle_negative_values ud (CStr []) = []"
    by (simp_all add: handle_negative_values_def)
  have glyph: "handle_negative_values ud (CStr (0x25B2 # rest))
             = asc ''-'' @ rev (dropWhile (isspace ud) (rev rest))"
    using assms(1) by (rule handle_negative_values_glyph)
  have ne: "item_value d \<noteq> []"
    using parse_table_values [OF assms(2)] by simp
  have cm: "(if table_type = asc ''main_summary'' then main_summary_categories
             else brokerage_categories) = main_summary_categories
          \<or> (if table_type = asc ''main_summary'' then main_summary_categories
             else brokerage_categories) = brokerage_categories"
    by simp
  have row: "parse_table ud (sheet\<lparr>data_rows := before @ [row] @ after\<rparr>)
               instrument_code date_code table_type
             = parse_table ud (sheet\<lparr>data_rows := before\<rparr>)
                   instrument_code date_code table_type
               @ (if handle_negative_values ud (row ! 5) = [] then []
                  else [\<lparr>item_code = row_code (table_type = asc ''main_summary'')
                                         instrument_code category subcat (asc ''VALUE''),
                         item_date = date_code,
                         item_value = handle_negative_values ud (row ! 5)\<rparr>])
               @ (if handle_negative_values ud (row ! 7) = [] then []
                  else [\<lparr>item_code = row_code (table_type = asc ''main_summary'')
                                         instrument_code category subcat (asc ''BALANCE''),
                         item_date = date_code,
                         item_value = handle_negative_values ud (row ! 7)\<rparr>])
               @ parse_table ud (sheet\<lparr>data_rows := after\<rparr>)
                   instrument_code date_code table_type"
    unfolding parse_table_append parse_table_single
      parse_row_matched [OF assms(3) assms(4) assms(5) assms(6) cm]
    by simp
  from empty glyph ex ne parse_table_origin [OF assms(2)] row show ?thesis
    by (intro conjI)
qed

theorem handle_negative_values_normalises_witness:
  "\<not> isspace ascii_db 0x25B2
   \<and> \<lparr>item_code = asc ''JGBF.TOTAL_PROPRIETARY_BROKERAGE.JGB10YEARFUTURES.TRADINGVALUE.PROPRIETARY.SALES.BALANCE.W'',
        item_date = asc ''2023-49'', item_value = asc ''-50''\<rparr>
      \<in> set (parse_table ascii_db example_sheet (asc ''JGB10YEARFUTURES'') (asc ''2023-49'')
                 (asc ''main_summary''))
   \<and> 8 \<le> length example_row_no_value
   \<and> \<not> contains [0x5408, 0x8A08] (str_of (or_empty (example_row_no_value ! 1)))
   \<and> first_match main_summary_categories (str_of (or_empty (example_row_no_value ! 0)))
       = Some (asc ''PROPRIETARY'')
   \<and> first_match subcategories (str_of (or_empty (example_row_no_value ! 1)))
       = Some (asc ''PURCHASES'')
   \<and> example_row_no_value ! 5 = CNone
   \<and> handle_negative_values ascii_db (CStr (0x25B2 # asc ''1,234 '')) = asc ''-1,234''
   \<and> handle_negative_values ascii_db (CStr (asc ''-'')) = []
   \<and> parse_table ascii_db (example_sheet\<lparr>data_rows := [example_row] @ [example_row_no_value] @ []\<rparr>)
        (asc ''JGB10YEARFUTURES'') (asc ''2023-49'') (asc ''main_summary'')
      = [\<lparr>item_code = asc ''JGBF.TOTAL_PROPRIETARY_BROKERAGE.JGB10YEARFUTURES.TRADINGVALUE.PROPRIETARY.SALES.VALUE.W'',
           item_date = asc ''2023-49'', item_value = asc ''100''\<rparr>,
         \<lparr>item_code = asc ''JGBF.TOTAL_PROPRIETARY_BROKERAGE.JGB10YEARFUTURES.TRADINGVALUE.PROPRIETARY.SALES.BALANCE.W'',
           item_date = asc ''2023-49'', item_value = asc ''-50''\<rparr>,
         \<lparr>item_code = asc ''JGBF.TOTAL_PROPRIETARY_BROKERAGE.JGB10YEARFUTURES.TRADINGVALUE.PROPRIETARY.PURCHASES.BALANCE.W'',
           item_date = asc ''2023-49'', item_value = asc ''-7''\<rparr>]"
proof -
  have h1: "\<not> isspace ascii_db 0x25B2"
    by (simp add: isspace_def ascii_db_def)
  have h2: "\<lparr>item_code = asc ''JGBF.TOTAL_PROPRIETARY_BROKERAGE.JGB10YEARFUTURES.TRADINGVALUE.PROPRIETARY.SALES.BALANCE.W'',
        item_date = asc ''2023-49'', item_value = asc ''-50''\<rparr>
      \<in> set (parse_table ascii_db example_sheet (asc ''JGB10YEARFUTURES'') (asc ''2023-49'')
                 (asc ''main_summary''))"
    by (simp add: example_sheet_parsed)
  have h3: "8 \<le> length example_row_no_value"
    by (simp add: example_row_no_value_def)
  have h4: "\<not> contains [0x5408, 0x8A08] (str_of (or_empty (example_row_no_value ! 1)))"
    by (simp add: example_row_no_value_def or_empty_def)
  have c: "first_match main_summary_categories (str_of (or_empty (example_row_no_value ! 0)))
       = Some (asc ''PROPRIETARY'')"
    by (simp add: example_row_no_value_def or_empty_def first_match_def
        main_summary_categories_def)
  then have h5: "first_match (if asc ''main_summary'' = asc ''main_summary''
                      then main_summary_categories else brokerage_categories)
              (str_of (or_empty (example_row_no_value ! 0))) = Some (asc ''PROPRIETARY'')"
    by simp
  have h6: "first_match subcategories (str_of (or_empty (example_row_no_value ! 1)))
       = Some (asc ''PURCHASES'')"
    by (simp add: example_row_no_value_def or_empty_def first_match_def subcategories_def)
  have v5: "example_row_no_value ! 5 = CNone"
    and v7: "example_row_no_value ! 7 = CStr (0x25B2 # asc ''7'')"
    by (simp_all add: example_row_no_value_def)
  have r: "rev (dropWhile (isspace ascii_db) (rev (asc ''1,234 ''))) = asc ''1,234''"
    by (simp add: asc_def isspace_def)
  have b: "handle_negative_values ascii_db (CStr (0x25B2 # asc ''7'')) = asc ''-7''"
    by (simp add: handle_negative_values_glyph [OF h1]) (simp add: asc_def isspace_def)
  have p1: "parse_table ascii_db (example_sheet\<lparr>data_rows := [example_row]\<rparr>)
              (asc ''JGB10YEARFUTURES'') (asc ''2023-49'') (asc ''main_summary'')
            = parse_table ascii_db example_sheet
              (asc ''JGB10YEARFUTURES'') (asc ''2023-49'') (asc ''main_summary'')"
    by (simp add: example_sheet_def)
  have p2: "parse_table ascii_db (example_sheet\<lparr>data_rows := []\<rparr>)
              (asc ''JGB10YEARFUTURES'') (asc ''2023-49'') (asc ''main_summary'') = []"
    by (simp add: parse_table_def)
  have rc: "row_code (asc ''main_summary'' = asc ''main_summary'') (asc ''JGB10YEARFUTURES'')
              (asc ''PROPRIETARY'') (asc ''PURCHASES'') (asc ''BALANCE'')
            = asc ''JGBF.TOTAL_PROPRIETARY_BROKERAGE.JGB10YEARFUTURES.TRADINGVALUE.PROPRIETARY.PURCHASES.BALANCE.W''"
    by (simp add: row_code_def asc_def)
  have n: "asc ''-7'' \<noteq> []"
    by (simp add: asc_def)
  note t = handle_negative_values_normalises [OF h1 h2 h3 h4 h5 h6,
      where rest = "asc ''1,234 ''" and before = "[example_row]" and after = "[]"]
  have t4: "handle_negative_values ascii_db (CStr (0x25B2 # asc ''1,234 '')) = asc ''-1,234''"
    using t [THEN conjunct2, THEN conjunct2, THEN conjunct2, THEN conjunct1]
    unfolding r by (simp add: asc_def)
  have t2: "handle_negative_values ascii_db (CStr (asc ''-'')) = []"
    using t [THEN conjunct2, THEN conjunct1] .
  have t1: "handle_negative_values ascii_db CNone = []"
    using t [THEN conjunct1] .
  from t [THEN conjunct2, THEN conjunct2, THEN conjunct2, THEN conjunct2, THEN conjunct2,
      THEN conjunct2, THEN conjunct2]
  have "parse_table ascii_db (example_sheet\<lparr>data_rows := [example_row] @ [example_row_no_value] @ []\<rparr>)
        (asc ''JGB10YEARFUTURES'') (asc ''2023-49'') (asc ''main_summary'')
      = parse_table ascii_db example_sheet
              (asc ''JGB10YEARFUTURES'') (asc ''2023-49'') (asc ''main_summary'')
        @ [\<lparr>item_code = asc ''JGBF.TOTAL_PROPRIETARY_BROKERAGE.JGB10YEARFUTURES.TRADINGVALUE.PROPRIETARY.PURCHASES.BALANCE.W'',
           item_date = asc ''2023-49'', item_value = asc ''-7''\<rparr>]"
    unfolding p1 p2 v5 v7 t1 b rc using n by simp
  then have t8: "parse_table ascii_db (example_sheet\<lparr>data_rows := [example_row] @ [example_row_no_value] @ []\<rparr>)
        (asc ''JGB10YEARFUTURES'') (asc ''2023-49'') (asc ''main_summary'')
      = [\<lparr>item_code = asc ''JGBF.TOTAL_PROPRIETARY_BROKERAGE.JGB10YEARFUTURES.TRADINGVALUE.PROPRIETARY.SALES.VALUE.W'',
           item_date = asc ''2023-49'', item_value = asc ''100''\<rparr>,
         \<lparr>item_code = asc ''JGBF.TOTAL_PROPRIETARY_BROKERAGE.JGB10YEARFUTURES.TRADINGVALUE.PROPRIETARY.SALES.BALANCE.W'',
           item_date = asc ''2023-49'', item_value = asc ''-50''\<rparr>,
         \<lparr>item_code = asc ''JGBF.TOTAL_PROPRIETARY_BROKERAGE.JGB10YEARFUTURES.TRADINGVALUE.PROPRIETARY.PURCHASES.BALANCE.W'',
           item_date = asc ''2023-49'', item_value = asc ''-7''\<rparr>]"
    unfolding example_sheet_parsed by simp
  from h1 h2 h3 h4 c h6 v5 t4 t2 t8 show ?thesis
    by (intro conjI)
qed

section \<open>Rows that are skipped\<close>

lemma parse_row_skip:
  assumes "length row < 8 \<or> \<not> truthy (row ! 0) \<or> \<not> truthy (row ! 1)
           \<or> contains [0x5408, 0x8A08] (str_of (row ! 1))"
  shows "parse_row ud is_main cm ic dc row = []"
  using assms by (auto simp: parse_row_def Let_def or_empty_def)

text \<open>
  C7: a row with fewer than 8 fields, a row whose first or second field is missing
  (\<open>None\<close>, empty or otherwise false), and a row whose second field contains the label
  of a total (U+5408 U+8A08) contributes no record: the table parsed with such a row at
  any place gives the records of the table without it. \<open>parse_table\<close> is a total
  function, as the loop it models has no statement that can raise.
\<close>

theorem parse_table_skips_row:
  assumes "length row < 8 \<or> \<not> truthy (row ! 0) \<or> \<not> truthy (row ! 1)
           \<or> contains [0x5408, 0x8A08] (str_of (row ! 1))"
  shows "parse_table ud (sheet\<lparr>data_rows := before @ [row] @ after\<rparr>)
             instrument_code date_code table_type
         = parse_table ud (sheet\<lparr>data_rows := before @ after\<rparr>)
             instrument_code date_code table_type"
  using parse_row_skip [OF assms] by (simp add: parse_table_def Let_def)

theorem parse_table_skips_row_witness:
  "length [CStr [0x81EA, 0x5DF1, 0x53D6, 0x5F15, 0x8A08], CStr [0x58F2, 0x308A],
           CNone, CNone, CInt 100] < 8
   \<and> parse_table ascii_db
        (example_sheet\<lparr>data_rows := [example_row]
           @ [[CStr [0x81EA, 0x5DF1, 0x53D6, 0x5F15, 0x8A08], CStr [0x58F2, 0x308A],
               CNone, CNone, CInt 100]] @ []\<rparr>)
        (asc ''JGB10YEARFUTURES'') (asc ''2023-49'') (asc ''main_summary'')
      = parse_table ascii_db example_sheet
          (asc ''JGB10YEARFUTURES'') (asc ''2023-49'') (asc ''main_summary'')"
proof -
  have h: "length [CStr [0x81EA, 0x5DF1, 0x53D6, 0x5F15, 0x8A08], CStr [0x58F2, 0x308A],
           CNone, CNone, CInt 100] < 8 \<or> \<not> truthy ([CStr [0x81EA, 0x5DF1, 0x53D6, 0x5F15, 0x8A08], CStr [0x58F2, 0x308A],
           CNone, CNone, CInt 100] ! 0) \<or> \<not> truthy ([CStr [0x81EA, 0x5DF1, 0x53D6, 0x5F15, 0x8A08], CStr [0x58F2, 0x308A],
           CNone, CNone, CInt 100] ! 1)
           \<or> contains [0x5408, 0x8A08] (str_of ([CStr [0x81EA, 0x5DF1, 0x53D6, 0x5F15, 0x8A08], CStr [0x58F2, 0x308A],
           CNone, CNone, CInt 100] ! 1))"
    by simp
  show ?thesis
    using parse_table_skips_row [OF h, where ud = ascii_db and sheet = example_sheet
        and before = "[example_row]" and after = "[]"
        and instrument_code = "asc ''JGB10YEARFUTURES''" and date_code = "asc ''2023-49''"
        and table_type = "asc ''main_summary''"]
    by (simp add: example_sheet_def)
qed

section \<open>Codes of the records and the template\<close>

lemma parse_row_codes:
  assumes "d \<in> set (parse_row ud is_main cm ic dc row)"
  shows "\<exists>category \<in> snd ` set cm. \<exists>subcat \<in> snd ` set subcategories.
           \<exists>metric \<in> {asc ''VALUE'', asc ''BALANCE''}.
             item_code d = row_code is_main ic category subcat metric"
proof -
  let ?c = "first_match cm (str_of (or_empty (row ! 0)))"
  let ?s = "first_match subcategories (str_of (or_empty (row ! Suc 0)))"
  from assms obtain category where c: "?c = Some category"
    by (cases ?c) (auto simp: parse_row_def Let_def split: if_splits)
  from assms obtain subcat where s: "?s = Some subcat"
    by (cases ?s) (auto simp: parse_row_def Let_def c split: if_splits)
  from assms have "item_code d = row_code is_main ic category subcat (asc ''VALUE'')
            \<or> item_code d = row_code is_main ic category subcat (asc ''BALANCE'')"
    by (auto simp: parse_row_def Let_def c s split: if_splits)
  with first_match_in [OF c] first_match_in [OF s] show ?thesis
    by blast
qed

lemma main_column_in_template:
  assumes "i \<in> set instruments" "c \<in> set main_cats"
    "s \<in> {asc ''SALES'', asc ''PURCHASES''}" "m \<in> {asc ''VALUE'', asc ''BALANCE''}"
  shows "main_column ud i c s m \<in> set (get_template_columns ud)"
  using assms unfolding get_template_columns_def by auto

lemma breakdown_column_in_template:
  assumes "i \<in> set instruments" "c \<in> set breakdown_cats"
    "s \<in> {asc ''SALES'', asc ''PURCHASES''}" "m \<in> {asc ''VALUE'', asc ''BALANCE''}"
  shows "breakdown_column ud i c s m \<in> set (get_template_columns ud)"
  using assms unfolding get_template_columns_def by auto

lemma code_main_column:
  "code (main_column ud (ic, iname) (cc, cname) s m) = row_code True ic cc s m"
  by (simp add: main_column_def row_code_def)

lemma code_breakdown_column:
  "code (breakdown_column ud (ic, iname) (cc, cname) s m) = row_code False ic cc s m"
  by (simp add: breakdown_column_def row_code_def)

lemma dict_values:
  "snd ` set instrument_mapping \<subseteq> fst ` set instruments"
  "snd ` set main_summary_categories \<subseteq> fst ` set main_cats"
  "snd ` set brokerage_categories \<subseteq> fst ` set breakdown_cats"
  "snd ` set subcategories \<subseteq> {asc ''SALES'', asc ''PURCHASES''}"
  by (simp_all add: instrument_mapping_def instruments_def main_summary_categories_def
      main_cats_def brokerage_categories_def breakdown_cats_def subcategories_def)

lemma row_code_in_template:
  assumes "ic \<in> snd ` set instrument_mapping"
    and "category \<in> snd ` set (if is_main then main_summary_categories else brokerage_categories)"
    and "subcat \<in> snd ` set subcategories"
    and "metric \<in> {asc ''VALUE'', asc ''BALANCE''}"
  shows "row_code is_main ic category subcat metric \<in> code ` set (get_template_columns ud)"
proof -
  from assms(1) dict_values(1) have "ic \<in> fst ` set instruments"
    by (rule subsetD [rotated])
  then obtain iname where i: "(ic, iname) \<in> set instruments"
    by force
  from assms(3) dict_values(4) have s: "subcat \<in> {asc ''SALES'', asc ''PURCHASES''}"
    by (rule subsetD [rotated])
  show ?thesis
  proof (cases is_main)
    case True
    with assms(2) dict_values(2) have "category \<in> fst ` set main_cats"
      by auto
    then obtain cname where "(category, cname) \<in> set main_cats"
      by force
    from main_column_in_template [OF i this s assms(4), of ud]
    have "code (main_column ud (ic, iname) (category, cname) subcat metric)
          \<in> code ` set (get_template_columns ud)"
      by (rule imageI)
    then show ?thesis
      using True by (simp only: code_main_column)
  next
    case False
    with assms(2) dict_values(3) have "category \<in> fst ` set breakdown_cats"
      by auto
    then obtain cname where "(category, cname) \<in> set breakdown_cats"
      by force
    from breakdown_column_in_template [OF i this s assms(4), of ud]
    have "code (breakdown_column ud (ic, iname) (category, cname) subcat metric)
          \<in> code ` set (get_template_columns ud)"
      by (rule imageI)
    then show ?thesis
      using False by (simp only: code_breakdown_column)
  qed
qed

text \<open>
  C1: with an instrument code of the instrument mapping, every record that
  \<open>_parse_table\<close> emits, for any sheet, date and table type, carries a series code that
  is the code of a column of the template.
\<close>

theorem parse_table_codes_in_template:
  assumes "instrument_code \<in> snd ` set instrument_mapping"
    and "d \<in> set (parse_table ud sheet instrument_code date_code table_type)"
  shows "item_code d \<in> code ` set (get_template_columns ud)"
proof -
  let ?is_main = "table_type = asc ''main_summary''"
  let ?cm = "if ?is_main then main_summary_categories else brokerage_categories"
  from assms(2) obtain row
    where "d \<in> set (parse_row ud ?is_main ?cm instrument_code date_code row)"
    by (auto simp: parse_table_def Let_def)
  from parse_row_codes [OF this] obtain category subcat metric where
    "category \<in> snd ` set ?cm" "subcat \<in> snd ` set subcategories"
    "metric \<in> {asc ''VALUE'', asc ''BALANCE''}"
    "item_code d = row_code ?is_main instrument_code category subcat metric"
    by blast
  with row_code_in_template [OF assms(1), of category ?is_main subcat metric ud]
  show ?thesis by simp
qed

theorem parse_table_codes_in_template_witness:
  "asc ''JGB10YEARFUTURES'' \<in> snd ` set instrument_mapping
   \<and> \<lparr>item_code = asc ''JGBF.TOTAL_PROPRIETARY_BROKERAGE.JGB10YEARFUTURES.TRADINGVALUE.PROPRIETARY.SALES.VALUE.W'',
        item_date = asc ''2023-49'', item_value = asc ''100''\<rparr>
      \<in> set (parse_table ascii_db example_sheet (asc ''JGB10YEARFUTURES'') (asc ''2023-49'')
                 (asc ''main_summary''))
   \<and> asc ''JGBF.TOTAL_PROPRIETARY_BROKERAGE.JGB10YEARFUTURES.TRADINGVALUE.PROPRIETARY.SALES.VALUE.W''
      \<in> code ` set (get_template_columns ascii_db)"
proof -
  have h1: "asc ''JGB10YEARFUTURES'' \<in> snd ` set instrument_mapping"
    by (simp add: instrument_mapping_def)
  have h2: "\<lparr>item_code = asc ''JGBF.TOTAL_PROPRIETARY_BROKERAGE.JGB10YEARFUTURES.TRADINGVALUE.PROPRIETARY.SALES.VALUE.W'',
        item_date = asc ''2023-49'', item_value = asc ''100''\<rparr>
      \<in> set (parse_table ascii_db example_sheet (asc ''JGB10YEARFUTURES'') (asc ''2023-49'')
                 (asc ''main_summary''))"
    by (simp add: example_sheet_parsed)
  from parse_table_codes_in_template [OF h1 h2] h1 h2 show ?thesis
    by simp
qed

section \<open>Series codes are injective\<close>

lemma template_codes_distinct: "distinct (map code (get_template_columns ud))"
  by (simp add: get_template_columns_def main_column_def breakdown_column_def instruments_def
      main_cats_def breakdown_cats_def asc_def)

lemma template_codes_universe:
  "map code (get_template_columns ud)
   = map (\<lambda>(is_main, ic, cc, s, m). row_code is_main ic cc s m) series_universe"
  by (simp add: get_template_columns_def main_column_def breakdown_column_def instruments_def
      main_cats_def breakdown_cats_def series_universe_def row_code_def instrument_mapping_def
      main_summary_categories_def brokerage_categories_def subcategories_def)

lemma in_series_universe:
  assumes "ic \<in> snd ` set instrument_mapping"
    and "cc \<in> snd ` set (if is_main then main_summary_categories else brokerage_categories)"
    and "s \<in> snd ` set subcategories"
    and "m \<in> {asc ''VALUE'', asc ''BALANCE''}"
  shows "(is_main, ic, cc, s, m) \<in> set series_universe"
  using assms unfolding series_universe_def by (cases is_main) auto

lemma row_code_inj:
  "inj_on (\<lambda>(is_main, ic, cc, s, m). row_code is_main ic cc s m) (set series_universe)"
  using template_codes_distinct [of ascii_db] unfolding template_codes_universe
  by (simp add: distinct_map)

text \<open>
  C4 as stated fails in its last part: the template whose codes are pairwise different
  is not a list of 176 columns.
\<close>

theorem template_176_distinct_counterexample:
  "\<not> (length (get_template_columns ascii_db) = 176
      \<and> distinct (map code (get_template_columns ascii_db)))"
  by (simp add: length_get_template_columns)

text \<open>
  C4, amended: two series of the enumerated universe (an instrument code, a category
  code of the main summary or of the breakdown, a subcategory code and a metric) that
  get the same series code are the same series; equivalently, the template, which has
  112 columns, contains no code twice.
\<close>

theorem series_codes_injective:
  "(\<forall>ic1 \<in> snd ` set instrument_mapping. \<forall>ic2 \<in> snd ` set instrument_mapping.
    \<forall>main1 main2.
    \<forall>cc1 \<in> snd ` set (if main1 then main_summary_categories else brokerage_categories).
    \<forall>cc2 \<in> snd ` set (if main2 then main_summary_categories else brokerage_categories).
    \<forall>s1 \<in> snd ` set subcategories. \<forall>s2 \<in> snd ` set subcategories.
    \<forall>m1 \<in> {asc ''VALUE'', asc ''BALANCE''}. \<forall>m2 \<in> {asc ''VALUE'', asc ''BALANCE''}.
      row_code main1 ic1 cc1 s1 m1 = row_code main2 ic2 cc2 s2 m2
      \<longrightarrow> main1 = main2 \<and> ic1 = ic2 \<and> cc1 = cc2 \<and> s1 = s2 \<and> m1 = m2)
   \<and> distinct (map code (get_template_columns ud))
   \<and> length (get_template_columns ud) = 112"
proof -
  have "main1 = main2 \<and> ic1 = ic2 \<and> cc1 = cc2 \<and> s1 = s2 \<and> m1 = m2"
    if "ic1 \<in> snd ` set instrument_mapping" "ic2 \<in> snd ` set instrument_mapping"
      "cc1 \<in> snd ` set (if main1 then main_summary_categories else brokerage_categories)"
      "cc2 \<in> snd ` set (if main2 then main_summary_categories else brokerage_categories)"
      "s1 \<in> snd ` set subcategories" "s2 \<in> snd ` set subcategories"
      "m1 \<in> {asc ''VALUE'', asc ''BALANCE''}" "m2 \<in> {asc ''VALUE'', asc ''BALANCE''}"
      "row_code main1 ic1 cc1 s1 m1 = row_code main2 ic2 cc2 s2 m2"
    for main1 main2 ic1 ic2 cc1 cc2 s1 s2 m1 m2
  proof -
    have mem1: "(main1, ic1, cc1, s1, m1) \<in> set series_universe"
      using that(1,3,5,7) by (rule in_series_universe)
    have mem2: "(main2, ic2, cc2, s2, m2) \<in> set series_universe"
      using that(2,4,6,8) by (rule in_series_universe)
    have "(\<lambda>(is_main, ic, cc, s, m). row_code is_main ic cc s m) (main1, ic1, cc1, s1, m1)
          = (\<lambda>(is_main, ic, cc, s, m). row_code is_main ic cc s m) (main2, ic2, cc2, s2, m2)"
      using that(9) by simp
    with row_code_inj have "(main1, ic1, cc1, s1, m1) = (main2, ic2, cc2, s2, m2)"
      using mem1 mem2 by (rule inj_onD)
    then show ?thesis by simp
  qed
  then show ?thesis
    using template_codes_distinct [of ud] length_get_template_columns [of ud] by blast
qed

theorem series_codes_injective_witness:
  "asc ''JGB10YEARFUTURES'' \<in> snd ` set instrument_mapping
   \<and> asc ''PROPRIETARY'' \<in> snd ` set main_summary_categories
   \<and> asc ''INSTITUTIONS'' \<in> snd ` set brokerage_categories
   \<and> asc ''SALES'' \<in> snd ` set subcategories
   \<and> row_code True (asc ''JGB10YEARFUTURES'') (asc ''PROPRIETARY'') (asc ''SALES'') (asc ''VALUE'')
      \<noteq> row_code False (asc ''JGB10YEARFUTURES'') (asc ''INSTITUTIONS'') (asc ''SALES'') (asc ''VALUE'')"
proof -
  have h: "asc ''JGB10YEARFUTURES'' \<in> snd ` set instrument_mapping"
    "asc ''PROPRIETARY'' \<in> snd ` set (if True then main_summary_categories else brokerage_categories)"
    "asc ''INSTITUTIONS'' \<in> snd ` set (if False then main_summary_categories else brokerage_categories)"
    "asc ''SALES'' \<in> snd ` set subcategories"
    "asc ''VALUE'' \<in> {asc ''VALUE'', asc ''BALANCE''}"
    by (simp_all add: instrument_mapping_def main_summary_categories_def
        brokerage_categories_def subcategories_def)
  from series_codes_injective [of ascii_db] h
  have "row_code True (asc ''JGB10YEARFUTURES'') (asc ''PROPRIETARY'') (asc ''SALES'') (asc ''VALUE'')
      = row_code False (asc ''JGB10YEARFUTURES'') (asc ''INSTITUTIONS'') (asc ''SALES'') (asc ''VALUE'')
      \<longrightarrow> True = False"
    by blast
  with h show ?thesis by simp
qed

section \<open>Consolidation does not depend on the order of consistent records\<close>

lemma data_pivot_snoc: "data_pivot (xs @ [a]) = pivot_step a (data_pivot xs)"
  by (simp add: data_pivot_def)

lemma pivot_get_step:
  "pivot_get (pivot_step a m) c d
   = (if c = item_code a \<and> d = item_date a then item_value a else pivot_get m c d)"
  by (auto simp: pivot_get_def pivot_step_def split: option.splits)

lemma pivot_get_last:
  "pivot_get (data_pivot xs) c d
   = (let ms = filter (\<lambda>a. item_code a = c \<and> item_date a = d) xs
      in if ms = [] then [] else item_value (last ms))"
proof (induction xs rule: rev_induct)
  case Nil
  show ?case by (simp add: data_pivot_def pivot_get_def)
next
  case (snoc x xs)
  show ?case
  proof (cases "item_code x = c \<and> item_date x = d")
    case True
    then show ?thesis
      by (simp add: data_pivot_snoc pivot_get_step)
  next
    case False
    then show ?thesis
      using snoc.IH by (auto simp: data_pivot_snoc pivot_get_step)
  qed
qed

lemma pivot_get_final:
  assumes "\<forall>a \<in> set after. item_code a \<noteq> item_code x \<or> item_date a \<noteq> item_date x"
  shows "pivot_get (data_pivot (before @ [x] @ after)) (item_code x) (item_date x) = item_value x"
proof -
  let ?P = "\<lambda>a. item_code a = item_code x \<and> item_date a = item_date x"
  from assms have "filter ?P after = []"
    by (auto simp: filter_empty_conv)
  then have "filter ?P (before @ [x] @ after) = filter ?P before @ [x]"
    by simp
  then show ?thesis
    by (simp add: pivot_get_last)
qed

lemma pivot_get_absent:
  assumes "\<forall>a \<in> set xs. item_code a \<noteq> c \<or> item_date a \<noteq> d"
  shows "pivot_get (data_pivot xs) c d = []"
proof -
  from assms have "filter (\<lambda>a. item_code a = c \<and> item_date a = d) xs = []"
    by (auto simp: filter_empty_conv)
  then show ?thesis by (simp add: pivot_get_last)
qed

lemma pivot_get_member:
  assumes "consistent xs" "a \<in> set xs"
  shows "pivot_get (data_pivot xs) (item_code a) (item_date a) = item_value a"
proof -
  let ?P = "\<lambda>b. item_code b = item_code a \<and> item_date b = item_date a"
  from assms(2) have ne: "filter ?P xs \<noteq> []"
    by (auto simp: filter_empty_conv)
  then have "last (filter ?P xs) \<in> set (filter ?P xs)"
    by (rule last_in_set)
  then have "last (filter ?P xs) \<in> set xs \<and> ?P (last (filter ?P xs))"
    by simp
  with assms have "item_value (last (filter ?P xs)) = item_value a"
    unfolding consistent_def by blast
  with ne show ?thesis by (simp add: pivot_get_last)
qed

lemma pivot_get_set_eq:
  assumes "consistent xs" "set xs = set ys"
  shows "pivot_get (data_pivot xs) c d = pivot_get (data_pivot ys) c d"
proof (cases "\<exists>a \<in> set xs. item_code a = c \<and> item_date a = d")
  case True
  then obtain a where a: "a \<in> set xs" and c: "item_code a = c" and d: "item_date a = d"
    by blast
  have cy: "consistent ys"
    using assms(1) unfolding consistent_def assms(2) .
  from a assms(2) have ay: "a \<in> set ys"
    by (rule subst [rotated])
  have "pivot_get (data_pivot xs) (item_code a) (item_date a) = item_value a"
    using assms(1) a by (rule pivot_get_member)
  moreover have "pivot_get (data_pivot ys) (item_code a) (item_date a) = item_value a"
    using cy ay by (rule pivot_get_member)
  ultimately show ?thesis
    unfolding c d by (rule trans [OF _ sym])
next
  case False
  then have x: "\<forall>a \<in> set xs. item_code a \<noteq> c \<or> item_date a \<noteq> d"
    by blast
  then have y: "\<forall>a \<in> set ys. item_code a \<noteq> c \<or> item_date a \<noteq> d"
    unfolding assms(2) .
  show ?thesis
    unfolding pivot_get_absent [OF x] pivot_get_absent [OF y] ..
qed

lemma all_dates_set:
  "all_dates xs = sorted_list_of_set {d \<in> item_date ` set xs. d \<noteq> asc ''UNKNOWN_DATE''}"
proof -
  have "all_dates xs = sort (remdups (filter (\<lambda>d. d \<noteq> asc ''UNKNOWN_DATE'') (map item_date xs)))"
    by (simp add: all_dates_def remdups_filter)
  also have "\<dots> = sorted_list_of_set (set (filter (\<lambda>d. d \<noteq> asc ''UNKNOWN_DATE'') (map item_date xs)))"
    by (simp only: sorted_list_of_set_sort_remdups)
  also have "set (filter (\<lambda>d. d \<noteq> asc ''UNKNOWN_DATE'') (map item_date xs))
             = {d \<in> item_date ` set xs. d \<noteq> asc ''UNKNOWN_DATE''}"
    by auto
  finally show ?thesis .
qed

lemma generate_output_file_set_eq:
  assumes "consistent xs" "set xs = set ys"
  shows "generate_output_file ud xs = generate_output_file ud ys"
proof -
  have "set xs = {} \<longleftrightarrow> set ys = {}"
    unfolding assms(2) ..
  then have e: "xs = [] \<longleftrightarrow> ys = []"
    unfolding set_empty .
  have d: "all_dates xs = all_dates ys"
    unfolding all_dates_set assms(2) ..
  have p: "pivot_get (data_pivot xs) = pivot_get (data_pivot ys)"
    using pivot_get_set_eq [OF assms] by (intro ext)
  show ?thesis
    unfolding generate_output_file_def Let_def e d p ..
qed

lemma generate_output_file_Some:
  assumes "xs \<noteq> []" "all_dates xs \<noteq> []"
  shows "generate_output_file ud xs =
     Some ((asc ''Date'' # map code (get_template_columns ud))
           # (asc ''Description'' # map description (get_template_columns ud))
           # map (\<lambda>date. date # map (\<lambda>col_def. pivot_get (data_pivot xs) (code col_def) date)
                                     (get_template_columns ud))
                 (all_dates xs))"
  using assms by (simp add: generate_output_file_def Let_def)

lemma set_all_dates:
  "set (all_dates xs) = {d \<in> item_date ` set xs. d \<noteq> asc ''UNKNOWN_DATE''}"
  by (auto simp: all_dates_def)

text \<open>
  C6, amended: for every consistent list of records (no two records of the same series
  code and date with different values) and every permutation of it,
  \<open>generate_output_file\<close> gives the same sheet: the same header row, the same sorted
  date rows and the same cell values. As a function of the list it gives the same sheet
  whenever it is run again on the same list.
\<close>

theorem generate_output_file_order_insensitive:
  assumes "mset xs = mset ys" and "consistent xs"
  shows "generate_output_file ud xs = generate_output_file ud ys"
  using assms(2) mset_eq_setD [OF assms(1)] by (rule generate_output_file_set_eq)

text \<open>
  C6 as stated fails: two records of the same series and week with different values,
  taken in the two possible orders, give different sheets.
\<close>

theorem generate_output_file_order_counterexample:
  "mset [example_earlier, example_later] = mset [example_later, example_earlier]
   \<and> generate_output_file ascii_db [example_earlier, example_later]
      \<noteq> generate_output_file ascii_db [example_later, example_earlier]"
proof -
  have c: "code (hd (get_template_columns ascii_db)) = item_code example_earlier"
    by (simp add: get_template_columns_def instruments_def main_cats_def main_column_def
        example_earlier_def asc_def)
  have ne: "get_template_columns ascii_db \<noteq> []"
    using length_get_template_columns [of ascii_db] by auto
  have d1: "all_dates [example_earlier, example_later] = [asc ''2023-49'']"
    and d2: "all_dates [example_later, example_earlier] = [asc ''2023-49'']"
    by (simp_all add: all_dates_def example_earlier_def example_later_def asc_def)
  have p1: "pivot_get (data_pivot [example_earlier, example_later])
              (item_code example_earlier) (asc ''2023-49'') = asc ''200''"
    and p2: "pivot_get (data_pivot [example_later, example_earlier])
              (item_code example_earlier) (asc ''2023-49'') = asc ''100''"
    by (simp_all add: data_pivot_def pivot_step_def pivot_get_def example_earlier_def
        example_later_def)
  have "asc ''200'' \<noteq> asc ''100''"
    by (simp add: asc_def)
  obtain col cols where T: "get_template_columns ascii_db = col # cols"
    using ne by (cases "get_template_columns ascii_db") auto
  with c have cc: "code col = item_code example_earlier"
    by simp
  have "generate_output_file ascii_db [example_earlier, example_later]
      \<noteq> generate_output_file ascii_db [example_later, example_earlier]"
    using \<open>asc ''200'' \<noteq> asc ''100''\<close>
    by (simp add: generate_output_file_def Let_def d1 d2 T cc p1 p2)
  then show ?thesis
    by (simp add: add.commute)
qed

theorem generate_output_file_order_insensitive_witness:
  "mset [example_earlier, example_earlier\<lparr>item_date := asc ''2023-50''\<rparr>]
     = mset [example_earlier\<lparr>item_date := asc ''2023-50''\<rparr>, example_earlier]
   \<and> consistent [example_earlier, example_earlier\<lparr>item_date := asc ''2023-50''\<rparr>]
   \<and> generate_output_file ascii_db
        [example_earlier, example_earlier\<lparr>item_date := asc ''2023-50''\<rparr>]
      = generate_output_file ascii_db
        [example_earlier\<lparr>item_date := asc ''2023-50''\<rparr>, example_earlier]"
proof -
  have h1: "mset [example_earlier, example_earlier\<lparr>item_date := asc ''2023-50''\<rparr>]
     = mset [example_earlier\<lparr>item_date := asc ''2023-50''\<rparr>, example_earlier]"
    by (simp add: add.commute)
  have h2: "consistent [example_earlier, example_earlier\<lparr>item_date := asc ''2023-50''\<rparr>]"
    by (simp add: consistent_def example_earlier_def)
  from generate_output_file_order_insensitive [OF h1 h2] h1 h2 show ?thesis
    by blast
qed

section \<open>Conflicting records\<close>

text \<open>
  C10: when the list holds two records of the same series code and the same date with
  different values, and no record after the later one has that code and date, the sheet
  is written, it has a row of that date, and every cell of such a row under a column of
  that code holds the value of the later record, not that of the earlier one. When the
  code is a code of the template, such a cell exists: the sheet has a row of that date
  and a column of that code, and the cell where they meet holds the value of the later
  record.
\<close>

theorem generate_output_file_last_write_wins:
  assumes "all_data = before @ [earlier] @ between @ [later] @ after"
    and "item_code earlier = item_code later" and "item_date earlier = item_date later"
    and "item_value earlier \<noteq> item_value later"
    and "\<forall>a \<in> set after. item_code a \<noteq> item_code later \<or> item_date a \<noteq> item_date later"
    and "item_date later \<noteq> asc ''UNKNOWN_DATE''"
  shows "\<exists>grid. generate_output_file ud all_data = Some grid
     \<and> (\<exists>r. 2 \<le> r \<and> r < length grid \<and> hd (grid ! r) = item_date later)
     \<and> (\<forall>r k. 2 \<le> r \<and> r < length grid \<and> 1 \<le> k \<and> k < length (grid ! 0)
            \<and> hd (grid ! r) = item_date later \<and> grid ! 0 ! k = item_code later
          \<longrightarrow> grid ! r ! k = item_value later \<and> grid ! r ! k \<noteq> item_value earlier)
     \<and> (item_code later \<in> code ` set (get_template_columns ud)
          \<longrightarrow> (\<exists>r k. 2 \<le> r \<and> r < length grid \<and> 1 \<le> k \<and> k < length (grid ! 0)
                 \<and> hd (grid ! r) = item_date later \<and> grid ! 0 ! k = item_code later
                 \<and> grid ! r ! k = item_value later \<and> grid ! r ! k \<noteq> item_value earlier))"
proof -
  let ?T = "get_template_columns ud"
  let ?P = "data_pivot all_data"
  let ?row = "\<lambda>date. date # map (\<lambda>col_def. pivot_get ?P (code col_def) date) ?T"
  let ?grid = "(asc ''Date'' # map code ?T) # (asc ''Description'' # map description ?T)
               # map ?row (all_dates all_data)"
  have split: "all_data = (before @ [earlier] @ between) @ [later] @ after"
    using assms(1) by simp
  have ne: "all_data \<noteq> []"
    using assms(1) by simp
  have win: "pivot_get ?P (item_code later) (item_date later) = item_value later"
    unfolding split using assms(5) by (rule pivot_get_final)
  have "later \<in> set all_data"
    using assms(1) by simp
  with assms(6) have mem: "item_date later \<in> set (all_dates all_data)"
    by (auto simp: set_all_dates)
  then have dne: "all_dates all_data \<noteq> []"
    by auto
  have g: "generate_output_file ud all_data = Some ?grid"
    using ne dne by (rule generate_output_file_Some)
  from mem obtain i where i: "i < length (all_dates all_data)"
    "all_dates all_data ! i = item_date later"
    by (auto simp: in_set_conv_nth)
  then have ex: "\<exists>r. 2 \<le> r \<and> r < length ?grid \<and> hd (?grid ! r) = item_date later"
    by (intro exI [of _ "Suc (Suc i)"]) simp
  have cells: "?grid ! r ! k = item_value later \<and> ?grid ! r ! k \<noteq> item_value earlier"
    if "2 \<le> r" "r < length ?grid" "1 \<le> k" "k < length (?grid ! 0)"
      "hd (?grid ! r) = item_date later" "?grid ! 0 ! k = item_code later" for r k
  proof -
    from that(1) obtain r' where r: "r = Suc (Suc r')"
      by (metis Suc_le_D numeral_2_eq_2 Suc_le_mono)
    from that(3) obtain k' where k: "k = Suc k'"
      by (metis Suc_le_D One_nat_def)
    from that(2) r have r': "r' < length (all_dates all_data)"
      by simp
    from that(4) k have k': "k' < length ?T"
      by simp
    from that(5) r r' have d: "all_dates all_data ! r' = item_date later"
      by simp
    from that(6) k k' have c: "code (?T ! k') = item_code later"
      by simp
    have "?grid ! r ! k = pivot_get ?P (code (?T ! k')) (all_dates all_data ! r')"
      using r k r' k' by simp
    also have "\<dots> = item_value later"
      unfolding c d by (rule win)
    finally show ?thesis
      using assms(4) by simp
  qed
  have cell: "\<exists>r k. 2 \<le> r \<and> r < length ?grid \<and> 1 \<le> k \<and> k < length (?grid ! 0)
                 \<and> hd (?grid ! r) = item_date later \<and> ?grid ! 0 ! k = item_code later
                 \<and> ?grid ! r ! k = item_value later \<and> ?grid ! r ! k \<noteq> item_value earlier"
    if "item_code later \<in> code ` set ?T"
  proof -
    from that obtain j where j: "j < length ?T" "code (?T ! j) = item_code later"
      by (auto simp: in_set_conv_nth)
    have a: "2 \<le> Suc (Suc i)" "Suc (Suc i) < length ?grid" "1 \<le> Suc j"
      "Suc j < length (?grid ! 0)" "hd (?grid ! Suc (Suc i)) = item_date later"
      "?grid ! 0 ! Suc j = item_code later"
      using i j by simp_all
    from a cells [OF a] show ?thesis
      by blast
  qed
  from g ex cells cell show ?thesis
    by blast
qed

theorem generate_output_file_last_write_wins_witness:
  "[example_earlier, example_later] = [] @ [example_earlier] @ [] @ [example_later] @ []
   \<and> item_code example_earlier = item_code example_later
   \<and> item_date example_earlier = item_date example_later
   \<and> item_value example_earlier \<noteq> item_value example_later
   \<and> item_date example_later \<noteq> asc ''UNKNOWN_DATE''
   \<and> item_code example_later \<in> code ` set (get_template_columns ascii_db)
   \<and> item_date example_later = asc ''2023-49''
   \<and> item_value example_earlier = asc ''100''
   \<and> item_value example_later = asc ''200''
   \<and> (\<exists>grid. generate_output_file ascii_db [example_earlier, example_later] = Some grid
        \<and> length grid = 3 \<and> 1 < length (grid ! 0)
        \<and> hd (grid ! 2) = asc ''2023-49''
        \<and> grid ! 0 ! 1 = item_code example_later
        \<and> grid ! 2 ! 1 = asc ''200''
        \<and> grid ! 2 ! 1 \<noteq> asc ''100'')"
proof -
  let ?T = "get_template_columns ascii_db"
  have h1: "[example_earlier, example_later] = [] @ [example_earlier] @ [] @ [example_later] @ []"
    by simp
  have h2: "item_code example_earlier = item_code example_later"
    and h3: "item_date example_earlier = item_date example_later"
    and h4: "item_value example_earlier \<noteq> item_value example_later"
    and h6: "item_date example_later \<noteq> asc ''UNKNOWN_DATE''"
    and d: "item_date example_later = asc ''2023-49''"
    and v1: "item_value example_earlier = asc ''100''"
    and v: "item_value example_later = asc ''200''"
    by (simp_all add: example_earlier_def example_later_def asc_def)
  have h5: "\<forall>a \<in> set []. item_code a \<noteq> item_code example_later
              \<or> item_date a \<noteq> item_date example_later"
    by simp
  have c: "code (hd ?T) = item_code example_later"
    by (simp add: get_template_columns_def instruments_def main_cats_def main_column_def
        example_later_def asc_def)
  have ne: "?T \<noteq> []"
    using length_get_template_columns [of ascii_db] by auto
  then have c0: "code (?T ! 0) = item_code example_later"
    using c by (simp add: hd_conv_nth)
  have "?T ! 0 \<in> set ?T"
    using ne by simp
  with c0 have h7: "item_code example_later \<in> code ` set ?T"
    by (metis imageI)
  have ds: "all_dates [example_earlier, example_later] = [asc ''2023-49'']"
    by (simp add: all_dates_def example_earlier_def example_later_def asc_def)
  have g: "generate_output_file ascii_db [example_earlier, example_later] =
     Some ((asc ''Date'' # map code ?T)
           # (asc ''Description'' # map description ?T)
           # map (\<lambda>date. date # map (\<lambda>col_def.
                     pivot_get (data_pivot [example_earlier, example_later]) (code col_def) date) ?T)
                 (all_dates [example_earlier, example_later]))"
    by (rule generate_output_file_Some) (simp_all add: ds)
  from generate_output_file_last_write_wins [OF h1 h2 h3 h4 h5 h6, of ascii_db]
  obtain grid where gg: "generate_output_file ascii_db [example_earlier, example_later] = Some grid"
    and cells: "\<forall>r k. 2 \<le> r \<and> r < length grid \<and> 1 \<le> k \<and> k < length (grid ! 0)
               \<and> hd (grid ! r) = item_date example_later
               \<and> grid ! 0 ! k = item_code example_later
             \<longrightarrow> grid ! r ! k = item_value example_later
                 \<and> grid ! r ! k \<noteq> item_value example_earlier"
    and ex: "item_code example_later \<in> code ` set ?T
          \<longrightarrow> (\<exists>r k. 2 \<le> r \<and> r < length grid \<and> 1 \<le> k \<and> k < length (grid ! 0)
                 \<and> hd (grid ! r) = item_date example_later \<and> grid ! 0 ! k = item_code example_later
                 \<and> grid ! r ! k = item_value example_later
                 \<and> grid ! r ! k \<noteq> item_value example_earlier)"
    by blast
  from g gg have shape: "grid = (asc ''Date'' # map code ?T)
           # (asc ''Description'' # map description ?T)
           # map (\<lambda>date. date # map (\<lambda>col_def.
                     pivot_get (data_pivot [example_earlier, example_later]) (code col_def) date) ?T)
                 [asc ''2023-49'']"
    by (simp add: ds)
  have s1: "length grid = 3" and s2: "1 < length (grid ! 0)"
    and s3: "hd (grid ! 2) = asc ''2023-49''" and s4: "grid ! 0 ! 1 = item_code example_later"
    using ne c0 by (simp_all add: shape length_get_template_columns)
  have "2 \<le> (2::nat) \<and> 2 < length grid \<and> 1 \<le> (1::nat) \<and> 1 < length (grid ! 0)
               \<and> hd (grid ! 2) = item_date example_later
               \<and> grid ! 0 ! 1 = item_code example_later"
    using s1 s2 s3 s4 d by simp
  with cells have "grid ! 2 ! 1 = item_value example_later
                 \<and> grid ! 2 ! 1 \<noteq> item_value example_earlier"
    by blast
  then have s5: "grid ! 2 ! 1 = asc ''200''" and s6: "grid ! 2 ! 1 \<noteq> asc ''100''"
    unfolding v v1 by (simp_all add: asc_def)
  from gg s1 s2 s3 s4 s5 s6
  have "\<exists>grid. generate_output_file ascii_db [example_earlier, example_later] = Some grid
        \<and> length grid = 3 \<and> 1 < length (grid ! 0)
        \<and> hd (grid ! 2) = asc ''2023-49''
        \<and> grid ! 0 ! 1 = item_code example_later
        \<and> grid ! 2 ! 1 = asc ''200''
        \<and> grid ! 2 ! 1 \<noteq> asc ''100''"
    by blast
  with h1 h2 h3 h4 h6 h7 d v1 v show ?thesis
    by (intro conjI)
qed

section \<open>Titles of the tables of a page\<close>

lemma pad_titles_closed:
  "pad_titles found = found @ map (\<lambda>n. asc ''Table Title '' @ show_nat (n + 1) @ asc '' (Not Found)'')
                                   [length found ..< length table_keywords]"
proof (induction found rule: pad_titles.induct)
  case (1 found_titles)
  show ?case
  proof (cases "length found_titles < length table_keywords")
    case True
    with "1.IH" show ?thesis
      by (subst pad_titles.simps) (simp add: upt_conv_Cons)
  next
    case False
    then show ?thesis
      by (subst pad_titles.simps) simp
  qed
qed

lemma length_extract_table_titles_from_text:
  "length (extract_table_titles_from_text text) = 4"
proof -
  let ?found = "map snd (filter (\<lambda>(keyword, full_title). contains keyword text)
                                 (zip table_keywords table_section_titles))"
  have "length ?found \<le> length (zip table_keywords table_section_titles)"
    by (simp del: length_zip)
  also have "\<dots> = 4"
    by (simp add: table_keywords_def table_section_titles_def)
  finally have "length ?found \<le> 4" .
  moreover have "length table_keywords = 4"
    by (simp add: table_keywords_def)
  moreover have "length (pad_titles ?found)
      = length ?found + (length table_keywords - length ?found)"
    by (subst pad_titles_closed) (simp only: length_append length_map length_upt)
  ultimately show ?thesis
    unfolding extract_table_titles_from_text_def by linarith
qed

lemma table_to_table_title_map_nth:
  assumes "i < table_count result"
  shows "table_to_table_title_map (before @ [result] @ after)
           ! (length (table_to_table_title_map before) + i)
         = page_table_title (table_titles result) i"
  using assms by (simp add: table_to_table_title_map_def nth_append)


lemma example_page_titles:
  "extract_table_titles_from_text (concat table_keywords) = table_section_titles"
  by (simp add: extract_table_titles_from_text_def table_keywords_def table_section_titles_def
      pad_titles.simps)

text \<open>
  C9 as stated fails in its second part: a page with five tables does not get a fallback
  label; its fifth table has slot 0 and gets the first section title again.
\<close>

theorem table_titles_fallback_counterexample:
  "table_count example_page \<noteq> 4
   \<and> table_to_table_title_map [example_page] ! 4 = table_section_titles ! 0
   \<and> table_to_table_title_map [example_page] ! 4 \<noteq> asc ''Table Title 1''"
  by (simp add: example_page_def example_page_titles table_to_table_title_map_def
      page_table_title_def table_section_titles_def asc_def upt_conv_Cons)

text \<open>
  C9, amended: the table at index \<open>i\<close> of a page has slot \<open>i mod 4\<close>; it gets the
  entry of the page's title list at its slot where the list has one, and the label
  \<open>Table Title\<close> with the slot number plus one otherwise. The title list that
  \<open>extract_table_titles_from_text\<close> returns always has four entries, as the list of
  section titles used in its place has, so with it every table of the page gets the
  entry at its slot, whether the page has fewer, exactly or more than four tables.
\<close>

theorem table_titles_by_slot:
  assumes "i < table_count result"
  shows "table_to_table_title_map (before @ [result] @ after)
           ! (length (table_to_table_title_map before) + i)
         = (if i mod 4 < length (table_titles result) then table_titles result ! (i mod 4)
            else asc ''Table Title '' @ show_nat (i mod 4 + 1))
       \<and> length (extract_table_titles_from_text text) = 4
       \<and> length table_section_titles = 4
       \<and> (table_titles result = extract_table_titles_from_text text \<longrightarrow>
            table_to_table_title_map (before @ [result] @ after)
              ! (length (table_to_table_title_map before) + i)
            = extract_table_titles_from_text text ! (i mod 4))"
proof -
  let ?E = "extract_table_titles_from_text text"
  have nth: "table_to_table_title_map (before @ [result] @ after)
               ! (length (table_to_table_title_map before) + i)
             = page_table_title (table_titles result) i"
    using assms by (rule table_to_table_title_map_nth)
  have slot: "page_table_title (table_titles result) i
              = (if i mod 4 < length (table_titles result) then table_titles result ! (i mod 4)
                 else asc ''Table Title '' @ show_nat (i mod 4 + 1))"
    by (simp only: page_table_title_def Let_def)
  have len: "length ?E = 4"
    by (rule length_extract_table_titles_from_text)
  have "i mod 4 < length ?E"
    unfolding len by simp
  then have "page_table_title ?E i = ?E ! (i mod 4)"
    by (simp only: page_table_title_def Let_def if_True)
  then have "table_titles result = ?E \<longrightarrow> page_table_title (table_titles result) i = ?E ! (i mod 4)"
    by auto
  moreover have "length table_section_titles = 4"
    by (simp add: table_section_titles_def)
  ultimately show ?thesis
    using nth slot len by metis
qed

theorem table_titles_by_slot_witness:
  "4 < table_count example_page
   \<and> table_titles example_page = extract_table_titles_from_text (concat table_keywords)
   \<and> table_to_table_title_map ([] @ [example_page] @ [])
        ! (length (table_to_table_title_map []) + 4)
      = extract_table_titles_from_text (concat table_keywords) ! (4 mod 4)"
proof -
  have h: "4 < table_count example_page"
    and t: "table_titles example_page = extract_table_titles_from_text (concat table_keywords)"
    by (simp_all add: example_page_def)
  from table_titles_by_slot [OF h, of "[]" "[]" "concat table_keywords"] h t show ?thesis
    by blast
qed

section \<open>Week keys of file names\<close>

lemmas regex_eval =
  re_search.simps pattern1_def pattern2_def pattern3_def lits_def lit_matches_def
  digit_value_def is_digit_ascii_def is_upper_ascii_def is_lower_ascii_def asc_def upt_rec

lemma search_example: "re_search ud pattern1 (asc ''Jul_2025_Week2_7-7_-_7-11'')
   = Some [asc ''2025'', asc ''7'', asc ''7'']"
  by (simp add: regex_eval)

lemma isocalendar_example: "isocalendar (2025, 7, 7) = (2025, 28, 1)"
  by (simp add: isocalendar_def isoweek1monday_def ymd2ord_def days_before_year_def
      days_before_month_def is_leap_def Let_def)

lemma week_key_example: "week_key (2025, 7, 7) = asc ''2025-28''"
  by (simp add: week_key_def isocalendar_example show_int_def show_nat.simps asc_def)

lemma extract_example: "extract_date_from_filename ud (asc ''Jul_2025_Week2_7-7_-_7-11'') = asc ''2025-28''"
  by (simp add: extract_date_from_filename_def search_example try_numeric_def)
     (simp add: int_of_str_def digit_value_def is_digit_ascii_def asc_def datetime_def
      days_in_month_def is_leap_def week_key_example [unfolded asc_def, simplified])

lemma search_report:
  "re_search ud pattern1 (asc ''report'') = None"
  "re_search ud pattern2 (asc ''report'') = None"
  "re_search ud pattern3 (asc ''report'') = None"
  by (simp_all add: regex_eval)

lemma subtitle_example:
  "extract_instrument_from_subtitle ud (asc ''JGB(10-year) Futures'') = Some (asc ''JGB10YEARFUTURES'')"
  by (simp add: extract_instrument_from_subtitle_def lower_def tolower_def is_upper_ascii_def asc_def)

lemma read_example:
  "read_excel_sheet example_workbook (asc ''P1_Table1_Main_Summary'') = Some example_sheet"
  by (simp add: read_excel_sheet_def example_workbook_def example_sheet_def or_empty_def
      example_row_def asc_def)

lemma process_example:
  "process_single_file ascii_db (asc ''Jul_2025_Week2_7-7_-_7-11'') example_workbook
   = parse_table ascii_db example_sheet (asc ''JGB10YEARFUTURES'') (asc ''2025-28'')
       (asc ''main_summary'')"
proof -
  have n: "contains (asc ''Table1_Main_Summary'') (asc ''P1_Table1_Main_Summary'')"
    by (simp add: asc_def)
  have u: "asc ''2025-28'' \<noteq> asc ''UNKNOWN_DATE''" "asc ''JGB10YEARFUTURES'' \<noteq> []"
    by (simp_all add: asc_def)
  have "process_sheet ascii_db example_workbook (asc ''2025-28'') (asc ''P1_Table1_Main_Summary'')
        = parse_table ascii_db example_sheet (asc ''JGB10YEARFUTURES'') (asc ''2025-28'')
            (asc ''main_summary'')"
    using n u
    by (simp add: process_sheet_def read_example subtitle_example
        example_sheet_def [THEN arg_cong, of subtitle])
  then show ?thesis
    using u by (simp add: process_single_file_def extract_example) (simp add: example_workbook_def)
qed

lemma example_filename:
  "generate_filename ud example_label (asc ''pdf'') = asc ''Jul_2025_Week2_7-7_-_7-11.pdf''"
  by (simp add: generate_filename_def example_label_def asc_def isalnum_def is_upper_ascii_def
      is_lower_ascii_def is_digit_ascii_def)

lemma example_stems:
  "path_stem (asc ''Jul_2025_Week2_7-7_-_7-11.pdf'') = asc ''Jul_2025_Week2_7-7_-_7-11''"
  "path_stem (asc ''Jul_2025_Week2_7-7_-_7-11'' @ asc ''.xlsx'') = asc ''Jul_2025_Week2_7-7_-_7-11''"
  by (simp_all add: path_stem_def rfind_def asc_def upt_conv_Cons)

text \<open>
  C3: \<open>extract_date_from_filename\<close> is a function of the file name alone (and of the
  character database of the runtime, which does not change); the file name that
  \<open>generate_filename\<close> derives from the label \<open>Jul 2025, Week2\<close> with \<open>7/7 - 7/11\<close> in
  full-width brackets contains \<open>Jul_2025_Week2_7-7\<close>, and its stem, as a PDF and as the
  workbook converted from it, parses to \<open>2025-28\<close>, the ISO week of 7 July 2025, a
  Monday.
\<close>

theorem extract_date_from_filename_example:
  "generate_filename ud example_label (asc ''pdf'') = asc ''Jul_2025_Week2_7-7_-_7-11.pdf''
   \<and> contains (asc ''Jul_2025_Week2_7-7'') (generate_filename ud example_label (asc ''pdf''))
   \<and> isocalendar (2025, 7, 7) = (2025, 28, 1)
   \<and> extract_date_from_filename ud (path_stem (generate_filename ud example_label (asc ''pdf'')))
       = asc ''2025-28''
   \<and> extract_date_from_filename ud
         (path_stem (path_stem (generate_filename ud example_label (asc ''pdf'')) @ asc ''.xlsx''))
       = asc ''2025-28''"
proof -
  have "contains (asc ''Jul_2025_Week2_7-7'') (asc ''Jul_2025_Week2_7-7_-_7-11.pdf'')"
    by (simp add: asc_def)
  then show ?thesis
    by (simp only: example_filename example_stems extract_example isocalendar_example simp_thms)
qed

text \<open>
  C8: a file name in which none of the three patterns is found gives the sentinel
  \<open>UNKNOWN_DATE\<close>; \<open>extract_date_from_filename\<close> is a total function, every exception of
  its \<open>try\<close> blocks being a \<open>None\<close> of the model that the next pattern takes up; and
  whenever it gives the sentinel, \<open>process_single_file\<close> returns the empty list, whatever
  the workbook holds.
\<close>

theorem extract_date_from_filename_unknown:
  assumes "re_search ud pattern1 filename = None"
    and "re_search ud pattern2 filename = None"
    and "re_search ud pattern3 filename = None"
  shows "extract_date_from_filename ud filename = asc ''UNKNOWN_DATE''
         \<and> process_single_file ud filename wb = []
         \<and> (\<forall>stem. extract_date_from_filename ud stem = asc ''UNKNOWN_DATE''
                \<longrightarrow> process_single_file ud stem wb = [])"
  using assms by (simp add: extract_date_from_filename_def process_single_file_def)

theorem extract_date_from_filename_unknown_witness:
  "re_search ascii_db pattern1 (asc ''report'') = None
   \<and> re_search ascii_db pattern2 (asc ''report'') = None
   \<and> re_search ascii_db pattern3 (asc ''report'') = None
   \<and> extract_date_from_filename ascii_db (asc ''report'') = asc ''UNKNOWN_DATE''
   \<and> process_single_file ascii_db (asc ''report'') example_workbook = []
   \<and> process_single_file ascii_db (asc ''Jul_2025_Week2_7-7_-_7-11'') example_workbook \<noteq> []"
proof -
  have "parse_table ascii_db example_sheet (asc ''JGB10YEARFUTURES'') (asc ''2025-28'')
          (asc ''main_summary'') \<noteq> []"
    by (simp add: eval_defs)
  then have "process_single_file ascii_db (asc ''Jul_2025_Week2_7-7_-_7-11'') example_workbook \<noteq> []"
    unfolding process_example .
  with extract_date_from_filename_unknown [OF search_report, of ascii_db example_workbook]
    search_report [of ascii_db]
  show ?thesis
    by blast
qed

end
